theory Spec2Isabelle
  imports Complex_Main "HOL-Library.AList"
begin

section \<open>Python values, exceptions and strings\<close>

text \<open>
  The exceptions the modelled code can raise.  A collaborator that is not part of the
  modelled files may raise anything; \<open>OtherError\<close> carries its message.
  \<open>sys.exit(code)\<close> raises \<open>SystemExit\<close>; \<open>sys.exit()\<close> carries no code.
\<close>

datatype error =
    TypeError
  | ValueError
  | IndexError
  | KeyError
  | FileNotFoundError
  | SystemExit "nat option"
  | OtherError string

text \<open>\<open>s.startswith(p)\<close>.\<close>

fun startswith :: "string \<Rightarrow> string \<Rightarrow> bool" where
  "startswith s [] = True"
| "startswith [] (p # ps) = False"
| "startswith (c # cs) (p # ps) = (c = p \<and> startswith cs ps)"

text \<open>
  \<open>s.split(sep)\<close> for a separator string: the text is scanned from the left, every
  occurrence of \<open>sep\<close> found ends the current piece and the scan goes on behind it.
  Python raises \<open>ValueError\<close> for the empty separator.
\<close>

fun split_at :: "string \<Rightarrow> string \<Rightarrow> string \<Rightarrow> string list" where
  "split_at sep piece [] = [piece]"
| "split_at sep piece (c # cs) =
     (if startswith (c # cs) sep
      then piece # split_at sep [] (drop (length sep - 1) cs)
      else split_at sep (piece @ [c]) cs)"

definition str_split :: "string \<Rightarrow> string \<Rightarrow> error + string list" where
  "str_split s sep = (if sep = [] then Inl ValueError else Inr (split_at sep [] s))"

text \<open>\<open>xs[i]\<close> for a non-negative index: \<open>IndexError\<close> out of range.\<close>

definition py_index :: "'a list \<Rightarrow> nat \<Rightarrow> error + 'a" where
  "py_index xs i = (if i < length xs then Inr (xs ! i) else Inl IndexError)"

text \<open>\<open>s.replace('U', 'T')\<close>: a one-character pattern, every occurrence replaced.\<close>

definition replace_U_T :: "string \<Rightarrow> string" where
  "replace_U_T s = map (\<lambda>c. if c = CHR ''U'' then CHR ''T'' else c) s"

section \<open>The Mirna class\<close>

record Mirna =
  name :: string
  chromosome :: string
  start :: int
  end_pos :: int
  strand :: string
  pre :: string
  mature :: string
  bit :: real

text \<open>
  The chromosome branch of \<open>Mirna.__init__\<close>:
  \<^verbatim>\<open>if chromosome.startswith('chr'): self.chromosome = chromosome.split('chr')[1]\<close>
  \<^verbatim>\<open>else: self.chromosome = chromosome\<close>
\<close>

definition norm_chromosome :: "string \<Rightarrow> error + string" where
  "norm_chromosome chrom =
     (if startswith chrom ''chr''
      then (case str_split chrom ''chr'' of
              Inl e \<Rightarrow> Inl e
            | Inr parts \<Rightarrow> py_index parts 1)
      else Inr chrom)"

text \<open>
  \<open>Mirna.__init__\<close>.  The builtin \<open>int\<close> is a parameter \<open>to_int\<close>: \<open>None\<close> is its
  \<open>ValueError\<close>.  The statements run in the order of the source, so the first failing
  one decides the exception.
\<close>

definition Mirna_init ::
  "(string \<Rightarrow> int option) \<Rightarrow> string \<Rightarrow> string \<Rightarrow> string \<Rightarrow> string \<Rightarrow> string \<Rightarrow>
   string \<Rightarrow> string \<Rightarrow> real \<Rightarrow> error + Mirna" where
  "Mirna_init to_int nm chrom st en sd p m b =
     (case norm_chromosome chrom of
        Inl e \<Rightarrow> Inl e
      | Inr c \<Rightarrow>
          (case to_int st of
             None \<Rightarrow> Inl ValueError
           | Some s \<Rightarrow>
               (case to_int en of
                  None \<Rightarrow> Inl ValueError
                | Some e \<Rightarrow>
                    Inr \<lparr> name = nm, chromosome = c, start = s, end_pos = e, strand = sd,
                          pre = replace_U_T p, mature = replace_U_T m, bit = b \<rparr>)))"

section \<open>BLAST database check (coreset/utils.py)\<close>

text \<open>
  The file system as far as the program reads and writes it: the regular files with their
  lines, and the directories.  \<open>glob.glob(pattern)\<close> lists the paths that match; which
  path matches which pattern is the parameter \<open>matches\<close>.
\<close>

record fsys =
  files :: "(string \<times> string list) list"
  dirs :: "string list"

definition glob_glob :: "(string \<Rightarrow> string \<Rightarrow> bool) \<Rightarrow> fsys \<Rightarrow> string \<Rightarrow> string list" where
  "glob_glob matches fs pat = filter (matches pat) (map fst (files fs) @ dirs fs)"

text \<open>
  The loop of \<open>check_blastdb\<close> over the extensions, with its early \<open>return False\<close>.
  The function only reads: the file system is returned as it came.
\<close>

fun check_extensions ::
  "(string \<Rightarrow> string \<Rightarrow> bool) \<Rightarrow> string \<Rightarrow> string list \<Rightarrow> fsys \<Rightarrow> bool \<times> fsys" where
  "check_extensions matches db_path [] fs = (True, fs)"
| "check_extensions matches db_path (fe # fes) fs =
     (let found = glob_glob matches fs (db_path @ ''*'' @ fe)
      in if found = [] then (False, fs)
         else check_extensions matches db_path fes fs)"

definition check_blastdb :: "(string \<Rightarrow> string \<Rightarrow> bool) \<Rightarrow> string \<Rightarrow> fsys \<Rightarrow> bool \<times> fsys" where
  "check_blastdb matches db_path fs =
     check_extensions matches db_path [''nhr'', ''nin'', ''nsq''] fs"

text \<open>
  An instance of the matcher for the examples: patterns whose only metacharacter is
  \<open>*\<close>, which stands for any run of characters other than the path separator.
\<close>

fun star_match :: "string \<Rightarrow> string \<Rightarrow> bool" where
  "star_match [] [] = True"
| "star_match [] (x # xs) = False"
| "star_match (c # cs) [] = (c = CHR ''*'' \<and> star_match cs [])"
| "star_match (c # cs) (x # xs) =
     (if c = CHR ''*''
      then (star_match cs (x # xs) \<or> (x \<noteq> CHR ''/'' \<and> star_match (c # cs) xs))
      else (c = x \<and> star_match cs xs))"

section \<open>More of Python's strings and values\<close>

text \<open>
  \<open>s.split()\<close> without a separator: the words between runs of whitespace; leading and
  trailing whitespace gives no empty word, so \<open>line.strip().split()\<close> is the same list.
  A character of the model is a code point below 256.  The whitespace of \<open>str.split\<close>
  among them: the blank, the five controls \<open>0x09\<close> to \<open>0x0D\<close>, the four separators
  \<open>0x1C\<close> to \<open>0x1F\<close>, and outside ASCII the next-line control \<open>0x85\<close> and the
  no-break space \<open>0xA0\<close>.
\<close>

definition is_space :: "char \<Rightarrow> bool" where
  "is_space c \<longleftrightarrow>
     c \<in> set [CHR '' '', CHR 0x09, CHR 0x0A, CHR 0x0B, CHR 0x0C, CHR 0x0D,
              CHR 0x1C, CHR 0x1D, CHR 0x1E, CHR 0x1F, CHR 0x85, CHR 0xA0]"

fun split_ws_from :: "string \<Rightarrow> string \<Rightarrow> string list" where
  "split_ws_from word [] = (if word = [] then [] else [word])"
| "split_ws_from word (c # cs) =
     (if is_space c
      then (if word = [] then split_ws_from [] cs else word # split_ws_from [] cs)
      else split_ws_from (word @ [c]) cs)"

definition str_split_ws :: "string \<Rightarrow> string list" where
  "str_split_ws s = split_ws_from [] s"

text \<open>\<open>sep.join(xs)\<close>.\<close>

fun str_join :: "string \<Rightarrow> string list \<Rightarrow> string" where
  "str_join sep [] = []"
| "str_join sep [x] = x"
| "str_join sep (x # y # ys) = x @ sep @ str_join sep (y # ys)"

text \<open>The decimal text of a number, as \<open>'{}'.format(n)\<close> writes it.\<close>

function str_nat :: "nat \<Rightarrow> string" where
  "str_nat n =
     (if n < 10 then [''0123456789'' ! n]
      else str_nat (n div 10) @ [''0123456789'' ! (n mod 10)])"
  by pat_completeness auto
termination
  by (relation "measure id") auto

declare str_nat.simps [simp del]

definition str_int :: "int \<Rightarrow> string" where
  "str_int i = (if i < 0 then CHR ''-'' # str_nat (nat (- i)) else str_nat (nat i))"

definition nl :: string where
  "nl = [CHR 0x0A]"

text \<open>
  The values an option without a \<open>type\<close> can hold after \<open>parse_args\<close>: the integer of
  its \<open>default\<close> or \<open>const\<close>, or the text given on the command line.
\<close>

datatype pyval = PInt int | PStr string

definition truthy :: "pyval \<Rightarrow> bool" where
  "truthy v = (case v of PInt n \<Rightarrow> n \<noteq> 0 | PStr s \<Rightarrow> s \<noteq> [])"

definition py_format :: "pyval \<Rightarrow> string" where
  "py_format v = (case v of PInt n \<Rightarrow> str_int n | PStr s \<Rightarrow> s)"

text \<open>\<open>len(xs) > v\<close>: an \<open>int\<close> and a \<open>str\<close> do not compare.\<close>

definition len_gt :: "nat \<Rightarrow> pyval \<Rightarrow> error + bool" where
  "len_gt n v = (case v of PInt m \<Rightarrow> Inr (int n > m) | PStr s \<Rightarrow> Inl TypeError)"

text \<open>\<open>xs[:v]\<close>: a negative bound counts from the end; a \<open>str\<close> is no index.\<close>

definition slice_upto :: "'a list \<Rightarrow> pyval \<Rightarrow> error + 'a list" where
  "slice_upto xs v =
     (case v of
        PInt m \<Rightarrow> Inr (if 0 \<le> m then take (nat m) xs else take (length xs - nat (- m)) xs)
      | PStr s \<Rightarrow> Inl TypeError)"

text \<open>
  \<open>xs.insert(...)\<close> with the arguments of the call: \<open>list.insert\<close> takes exactly an index
  and an object, any other number of arguments raises \<open>TypeError\<close>, and so does an index
  that is no integer.  The lists here hold strings.  An index beyond either end inserts at
  that end.
\<close>

definition list_insert :: "string list \<Rightarrow> pyval list \<Rightarrow> error + string list" where
  "list_insert xs as =
     (case as of
        [PInt i, PStr x] \<Rightarrow>
          (let n = int (length xs);
               k = (if i < 0 then max 0 (n + i) else min n i)
           in Inr (take (nat k) xs @ [x] @ drop (nat k) xs))
      | _ \<Rightarrow> Inl TypeError)"

text \<open>
  \<open>{k: d[k] for k in ks}\<close>: the new dictionary starts empty and takes the entry of \<open>d\<close>
  under each key of \<open>ks\<close> in turn; a key that \<open>d\<close> does not hold raises \<open>KeyError\<close>.
  A dictionary is the list of its entries in insertion order, and \<open>AList.update\<close> is the
  assignment \<open>d[k] = v\<close>: in place for a key that is there, at the end for a new one.
\<close>

fun dict_restrict_into ::
  "('k \<times> 'v) list \<Rightarrow> ('k \<times> 'v) list \<Rightarrow> 'k list \<Rightarrow> error + ('k \<times> 'v) list" where
  "dict_restrict_into acc d [] = Inr acc"
| "dict_restrict_into acc d (k # ks) =
     (case map_of d k of
        None \<Rightarrow> Inl KeyError
      | Some v \<Rightarrow> dict_restrict_into (AList.update k v acc) d ks)"

definition dict_restrict :: "('k \<times> 'v) list \<Rightarrow> 'k list \<Rightarrow> error + ('k \<times> 'v) list" where
  "dict_restrict d ks = dict_restrict_into [] d ks"

section \<open>The world: file system, trace, collaborators\<close>

text \<open>
  What a run leaves behind besides the file system is its trace: the lines it prints, the
  external commands it runs, the calls it makes into the modules that are not modelled
  here, and the removals it attempts.
\<close>

datatype event =
    Print string
  | Print_help
  | Run_cmsearch string
  | Run_blastn string
  | Run_makeblastdb string
  | Call_cmsearcher string
  | Call_extract_sequences string
  | Call_evaluate_besthit string
  | Call_check_coortholog_ref string
  | Call_verify_coorthologs string
  | Os_remove string

record world =
  disk :: fsys
  trace :: "event list"

text \<open>
  A statement either completes with a value or raises; both leave a world.  A collaborator
  returns or raises and may change the file system on the way.
\<close>

datatype 'a res = Ok 'a world | Raise error world

datatype 'a ext = Returns 'a fsys | Raises error fsys

definition emit :: "event \<Rightarrow> world \<Rightarrow> world" where
  "emit e w = w\<lparr>trace := trace w @ [e]\<rparr>"

definition py_print :: "string \<Rightarrow> world \<Rightarrow> world" where
  "py_print s w = emit (Print s) w"

definition isfile :: "fsys \<Rightarrow> string \<Rightarrow> bool" where
  "isfile f p \<longleftrightarrow> p \<in> set (map fst (files f))"

definition isdir :: "fsys \<Rightarrow> string \<Rightarrow> bool" where
  "isdir f p \<longleftrightarrow> p \<in> set (dirs f)"

text \<open>\<open>open(p)\<close> and reading the lines: \<open>FileNotFoundError\<close> for a path that is no file.\<close>

definition read_lines :: "fsys \<Rightarrow> string \<Rightarrow> error + string list" where
  "read_lines f p = (case map_of (files f) p of None \<Rightarrow> Inl FileNotFoundError | Some ls \<Rightarrow> Inr ls)"

text \<open>
  \<open>open(p, 'w')\<close> followed by writes: the file holds exactly the lines written.  The
  directories the program writes into are made by the program before, so opening for
  writing does not fail in the model.
\<close>

definition write_lines :: "string \<Rightarrow> string list \<Rightarrow> fsys \<Rightarrow> fsys" where
  "write_lines p ls f = f\<lparr>files := AList.update p ls (files f)\<rparr>"

definition append_lines :: "string \<Rightarrow> string list \<Rightarrow> fsys \<Rightarrow> fsys" where
  "append_lines p ls f =
     f\<lparr>files := AList.update p ((case map_of (files f) p of None \<Rightarrow> [] | Some old \<Rightarrow> old) @ ls)
                   (files f)\<rparr>"

text \<open>\<open>sp.call('rm p', shell=True)\<close>: the shell's failure is a return code, not an exception.\<close>

definition shell_rm :: "string \<Rightarrow> fsys \<Rightarrow> fsys" where
  "shell_rm p f = f\<lparr>files := AList.delete p (files f)\<rparr>"

text \<open>\<open>os.makedirs(p)\<close>; the directories above \<open>p\<close> are not tracked.\<close>

definition makedirs :: "string \<Rightarrow> fsys \<Rightarrow> fsys" where
  "makedirs p f = f\<lparr>dirs := dirs f @ [p]\<rparr>"

text \<open>\<open>os.remove(p)\<close>: the attempt is traced, a path that is no file raises.\<close>

definition os_remove :: "string \<Rightarrow> world \<Rightarrow> unit res" where
  "os_remove p w =
     (let w1 = emit (Os_remove p) w
      in if isfile (disk w1) p
         then Ok () (w1\<lparr>disk := shell_rm p (disk w1)\<rparr>)
         else Raise FileNotFoundError w1)"

definition run_cmd :: "event \<Rightarrow> (fsys \<Rightarrow> fsys) \<Rightarrow> world \<Rightarrow> world" where
  "run_cmd e cmd w = (let w1 = emit e w in w1\<lparr>disk := cmd (disk w1)\<rparr>)"

definition call_ext :: "event \<Rightarrow> (fsys \<Rightarrow> 'a ext) \<Rightarrow> world \<Rightarrow> 'a res" where
  "call_ext e f w =
     (let w1 = emit e w
      in case f (disk w1) of
           Returns a d \<Rightarrow> Ok a (w1\<lparr>disk := d\<rparr>)
         | Raises err d \<Rightarrow> Raise err (w1\<lparr>disk := d\<rparr>))"

text \<open>
  The parts of a run that are not in the modelled files: the builtins \<open>int\<close> and \<open>float\<close>
  (\<open>None\<close> is their \<open>ValueError\<close>), the matching of \<open>glob\<close>, the external programs
  \<open>cmsearch\<close>, \<open>blastn\<close> and \<open>makeblastdb\<close> as changes of the file system (\<open>sp.call\<close> and
  \<open>sp.run\<close> without \<open>check\<close> do not raise on a failing command), and the modules
  \<open>cmsearch\<close>, \<open>genparser\<close> and \<open>blastparser\<close>.  Each collaborator is taken with the
  settings of the run (cutoffs, CPU count) already fixed; a parser object's constructor and
  its method are one call.
\<close>

record collab =
  py_int :: "string \<Rightarrow> int option"
  py_float :: "string \<Rightarrow> real option"
  glob_matches :: "string \<Rightarrow> string \<Rightarrow> bool"
  cmsearch_cmd :: "string \<Rightarrow> string \<Rightarrow> string \<Rightarrow> string \<Rightarrow> fsys \<Rightarrow> fsys"
  blastn_cmd :: "string \<Rightarrow> string \<Rightarrow> string \<Rightarrow> fsys \<Rightarrow> fsys"
  makeblastdb_cmd :: "string \<Rightarrow> string \<Rightarrow> fsys \<Rightarrow> fsys"
  cmsearcher :: "Mirna \<Rightarrow> fsys \<Rightarrow> ((string \<times> string list) list) ext"
  extract_sequences :: "string \<Rightarrow> string list list \<Rightarrow> fsys \<Rightarrow> ((string \<times> string) list) ext"
  evaluate_besthit :: "Mirna \<Rightarrow> string \<Rightarrow> fsys \<Rightarrow> bool ext"
  check_coortholog_ref :: "Mirna \<Rightarrow> string \<Rightarrow> string \<Rightarrow> string \<Rightarrow> fsys \<Rightarrow> bool ext"
  verify_coorthologs :: "Mirna \<Rightarrow> (string \<times> string) list \<Rightarrow> string \<Rightarrow> fsys \<Rightarrow>
                          ((string \<times> string) list) ext"

section \<open>Calibration: mirna_maker\<close>

text \<open>
  The reading of the self-search table: the lines that do not start with \<open>#\<close>, split into
  fields; with a hit the score is \<open>float(hits[0][14])\<close>, without one the warning is printed
  and the score is \<open>0.0\<close>.
\<close>

definition table_hits :: "string list \<Rightarrow> string list list" where
  "table_hits ls = map str_split_ws (filter (\<lambda>line. \<not> startswith line ''#'') ls)"

definition warning_line :: string where
  "warning_line = ''# Warning: Self bit score not applicable, setting threshold to 0.''"

definition top_score_of :: "(string \<Rightarrow> real option) \<Rightarrow> string list \<Rightarrow> world \<Rightarrow> real res" where
  "top_score_of flt ls w =
     (let hits = table_hits ls
      in case hits of
           [] \<Rightarrow> Ok 0 (py_print warning_line w)
         | h # rest \<Rightarrow>
             (case py_index h 14 of
                Inl e \<Rightarrow> Raise e w
              | Inr field \<Rightarrow>
                  (case flt field of
                     None \<Rightarrow> Raise ValueError w
                   | Some x \<Rightarrow> Ok x w)))"

text \<open>\<open>Mirna(*mirna)\<close>: the row with the score appended must give exactly the eight arguments.\<close>

definition Mirna_star :: "(string \<Rightarrow> int option) \<Rightarrow> string list \<Rightarrow> real \<Rightarrow> error + Mirna" where
  "Mirna_star ti row b =
     (case row of
        [nm, chrom, st, en, sd, p, m] \<Rightarrow> Mirna_init ti nm chrom st en sd p m b
      | _ \<Rightarrow> Inl TypeError)"

text \<open>
  The self-search of one miRNA, from the check of the output folder to the opening of the
  result table: the query file is written, \<open>cmsearch\<close> is run unless a table is already
  there, and the table's lines are read.
\<close>

definition self_search ::
  "collab \<Rightarrow> string \<Rightarrow> string \<Rightarrow> string \<Rightarrow> string \<Rightarrow> world \<Rightarrow> (string list) res" where
  "self_search env cmpath outp mirid seq w =
     (let query = outp @ ''/'' @ mirid @ ''.fa'';
          model = cmpath @ ''/'' @ mirid @ ''.cm'';
          w1 = (if \<not> isdir (disk w) outp then w\<lparr>disk := makedirs outp (disk w)\<rparr> else w);
          w2 = py_print (''# Calculating reference bit score for '' @ mirid @ ''.'') w1;
          w3 = w2\<lparr>disk := write_lines query [''>'' @ mirid, seq] (disk w2)\<rparr>;
          cms_output = outp @ ''/ref_cmsearch_'' @ mirid @ ''_tmp.out'';
          cms_log = outp @ ''/ref_cmsearch_'' @ mirid @ ''.log'';
          w4 = (if \<not> isfile (disk w3) cms_output
                then run_cmd (Run_cmsearch cms_output)
                       (cmsearch_cmd env cms_output model query cms_log) w3
                else py_print (''# Found cmsearch results at: '' @ cms_output
                                 @ '' using those'') w3)
      in case read_lines (disk w4) cms_output of
           Inl e \<Rightarrow> Raise e w4
         | Inr ls \<Rightarrow> Ok ls w4)"

text \<open>The three \<open>rm\<close> calls after the score is taken.\<close>

definition remove_temporaries :: "string \<Rightarrow> string \<Rightarrow> world \<Rightarrow> world" where
  "remove_temporaries outp mirid w =
     w\<lparr>disk := shell_rm (outp @ ''/'' @ mirid @ ''.fa'')
                 (shell_rm (outp @ ''/ref_cmsearch_'' @ mirid @ ''.log'')
                   (shell_rm (outp @ ''/ref_cmsearch_'' @ mirid @ ''_tmp.out'') (disk w)))\<rparr>"

text \<open>The body of the loop over the rows of the miRNA file.\<close>

definition calibrate_row ::
  "collab \<Rightarrow> string \<Rightarrow> string \<Rightarrow> string list \<Rightarrow> (string \<times> Mirna) list \<Rightarrow> world \<Rightarrow>
   ((string \<times> Mirna) list) res" where
  "calibrate_row env cmpath outp row mmdict w =
     (case py_index row 0 of
        Inl e \<Rightarrow> Raise e w
      | Inr mirid \<Rightarrow>
     (case py_index row 5 of
        Inl e \<Rightarrow> Raise e w
      | Inr seq \<Rightarrow>
          if \<not> isfile (disk w) (cmpath @ ''/'' @ mirid @ ''.cm'')
          then Ok mmdict (py_print (''# No covariance model found for '' @ mirid) w)
          else
            (case self_search env cmpath outp mirid seq w of
               Raise e w4 \<Rightarrow> Raise e w4
             | Ok ls w4 \<Rightarrow>
                 (case top_score_of (py_float env) ls w4 of
                    Raise e w5 \<Rightarrow> Raise e w5
                  | Ok top_score w5 \<Rightarrow>
                      (let w6 = remove_temporaries outp mirid w5
                       in case Mirna_star (py_int env) row top_score of
                            Inl e \<Rightarrow> Raise e w6
                          | Inr m \<Rightarrow> Ok (AList.update mirid m mmdict) w6)))))"

fun calibrate_rows ::
  "collab \<Rightarrow> string \<Rightarrow> string \<Rightarrow> string list list \<Rightarrow> (string \<times> Mirna) list \<Rightarrow> world \<Rightarrow>
   ((string \<times> Mirna) list) res" where
  "calibrate_rows env cmpath outp [] mmdict w = Ok mmdict w"
| "calibrate_rows env cmpath outp (row # rows) mmdict w =
     (case calibrate_row env cmpath outp row mmdict w of
        Raise e w1 \<Rightarrow> Raise e w1
      | Ok mmdict1 w1 \<Rightarrow> calibrate_rows env cmpath outp rows mmdict1 w1)"

definition mirna_maker ::
  "collab \<Rightarrow> string \<Rightarrow> string \<Rightarrow> string \<Rightarrow> world \<Rightarrow> ((string \<times> Mirna) list) res" where
  "mirna_maker env mirpath cmpath outp w =
     (case read_lines (disk w) mirpath of
        Inl e \<Rightarrow> Raise e w
      | Inr ls \<Rightarrow>
          (let mirna_data = map str_split_ws (filter (\<lambda>line. \<not> startswith line ''#'') ls)
           in calibrate_rows env cmpath outp mirna_data [] w))"

section \<open>The pipeline of main for one miRNA\<close>

text \<open>
  \<open>heuristic = (args.heuristic, args.heur_blast_evalue, args.heur_blast_length)\<close>: a
  tuple of three values is true whatever it holds.
\<close>

definition tuple_truthy :: "bool \<times> real \<times> real \<Rightarrow> bool" where
  "tuple_truthy t = True"

text \<open>
  The cap on the search hits, the \<open>elif\<close> of the loop body:
  \<^verbatim>\<open>elif max_hits and len(cm_results) > max_hits:\<close>
  \<^verbatim>\<open>    cm_results = {k: cm_results[k] for k in list(cm_results.keys())[:max_hits]}\<close>
\<close>

definition cap_hits ::
  "pyval \<Rightarrow> (string \<times> string list) list \<Rightarrow> world \<Rightarrow> ((string \<times> string list) list) res" where
  "cap_hits max_hits cm_results w =
     (if truthy max_hits
      then (case len_gt (length cm_results) max_hits of
              Inl e \<Rightarrow> Raise e w
            | Inr False \<Rightarrow> Ok cm_results w
            | Inr True \<Rightarrow>
                (let w1 = py_print (''# Maximum CMsearch hits reached. Restricting to best ''
                                      @ py_format max_hits @ '' hits'') w
                 in case slice_upto (map fst cm_results) max_hits of
                      Inl e \<Rightarrow> Raise e w1
                    | Inr ks \<Rightarrow>
                        (case dict_restrict cm_results ks of
                           Inl e \<Rightarrow> Raise e w1
                         | Inr d \<Rightarrow> Ok d w1)))
      else Ok cm_results w)"

text \<open>
  The decision on one candidate after its reverse search, the \<open>if\<close>/\<open>elif\<close>/\<open>else\<close>
  of the loop body; the result is \<open>reblast_hits\<close> after it.
\<close>

definition decide_candidate ::
  "collab \<Rightarrow> Mirna \<Rightarrow> bool \<Rightarrow> string \<Rightarrow> string \<Rightarrow> string \<Rightarrow> string \<Rightarrow>
   (string \<times> string) list \<Rightarrow> world \<Rightarrow> ((string \<times> string) list) res" where
  "decide_candidate env mirna checkCoorthref outdir blast_output candidate sequence reblast_hits w =
     (case call_ext (Call_evaluate_besthit blast_output)
             (evaluate_besthit env mirna blast_output) w of
        Raise e w1 \<Rightarrow> Raise e w1
      | Ok best w1 \<Rightarrow>
          if best
          then Ok (AList.update candidate sequence reblast_hits) (py_print ''Found best hit'' w1)
          else if checkCoorthref
          then (let w2 = py_print (''Best hit differs from reference sequence! ''
                                     @ ''Doing further checks'' @ nl) w1
                in case call_ext (Call_check_coortholog_ref sequence)
                          (check_coortholog_ref env mirna blast_output sequence outdir) w2 of
                     Raise e w3 \<Rightarrow> Raise e w3
                   | Ok co w3 \<Rightarrow>
                       Ok (if co then AList.update candidate sequence reblast_hits
                           else reblast_hits) w3)
          else Ok reblast_hits (py_print ''Best hit does not overlap with miRNA location'' w1))"

text \<open>\<^verbatim>\<open>if cleanup: os.remove(temp_fasta); os.remove(blast_output)\<close>\<close>

definition cleanup_candidate :: "bool \<Rightarrow> string \<Rightarrow> string \<Rightarrow> world \<Rightarrow> unit res" where
  "cleanup_candidate cleanup temp_fasta blast_output w =
     (if cleanup
      then (case os_remove temp_fasta w of
              Raise e w1 \<Rightarrow> Raise e w1
            | Ok u w1 \<Rightarrow> os_remove blast_output w1)
      else Ok () w)"

text \<open>The two temporary files of a candidate.\<close>

definition temp_fasta_of :: "string \<Rightarrow> string \<Rightarrow> string" where
  "temp_fasta_of outdir candidate = outdir @ ''/'' @ candidate @ ''.fa''"

definition blast_output_of :: "string \<Rightarrow> string \<Rightarrow> string" where
  "blast_output_of outdir candidate = outdir @ ''/blast_'' @ candidate @ ''.out''"

text \<open>
  The reverse search of one candidate: the query file is written and \<open>blastn\<close> is run with
  \<open>sp.run\<close>, which returns whatever the command does.
\<close>

definition reverse_blast :: "collab \<Rightarrow> string \<Rightarrow> string \<Rightarrow> string \<Rightarrow> string \<Rightarrow> world \<Rightarrow> world" where
  "reverse_blast env refblast outdir candidate sequence w =
     (let temp_fasta = temp_fasta_of outdir candidate;
          w1 = w\<lparr>disk := write_lines temp_fasta [''>'' @ candidate, sequence] (disk w)\<rparr>;
          blast_output = blast_output_of outdir candidate;
          w2 = py_print (''# Starting reverse blast for '' @ candidate) w1;
          w3 = run_cmd (Run_blastn blast_output)
                 (blastn_cmd env refblast temp_fasta blast_output) w2
      in py_print ''# finished blast'' w3)"

text \<open>The body of the loop over the candidates.\<close>

definition validate_candidate ::
  "collab \<Rightarrow> Mirna \<Rightarrow> string \<Rightarrow> bool \<Rightarrow> bool \<Rightarrow> string \<Rightarrow> string \<Rightarrow> string \<Rightarrow>
   (string \<times> string) list \<Rightarrow> world \<Rightarrow> ((string \<times> string) list) res" where
  "validate_candidate env mirna refblast checkCoorthref cleanup outdir candidate sequence
       reblast_hits w =
     (case decide_candidate env mirna checkCoorthref outdir (blast_output_of outdir candidate)
             candidate sequence reblast_hits
             (reverse_blast env refblast outdir candidate sequence w) of
        Raise e w5 \<Rightarrow> Raise e w5
      | Ok hits w5 \<Rightarrow>
          (case cleanup_candidate cleanup (temp_fasta_of outdir candidate)
                  (blast_output_of outdir candidate) w5 of
             Raise e w6 \<Rightarrow> Raise e w6
           | Ok u w6 \<Rightarrow> Ok hits w6))"

fun validate_all ::
  "collab \<Rightarrow> Mirna \<Rightarrow> string \<Rightarrow> bool \<Rightarrow> bool \<Rightarrow> string \<Rightarrow> (string \<times> string) list \<Rightarrow>
   (string \<times> string) list \<Rightarrow> world \<Rightarrow> ((string \<times> string) list) res" where
  "validate_all env mirna refblast checkCoorthref cleanup outdir [] reblast_hits w =
     Ok reblast_hits w"
| "validate_all env mirna refblast checkCoorthref cleanup outdir (c # cs) reblast_hits w =
     (case validate_candidate env mirna refblast checkCoorthref cleanup outdir (fst c) (snd c)
             reblast_hits w of
        Raise e w1 \<Rightarrow> Raise e w1
      | Ok hits w1 \<Rightarrow> validate_all env mirna refblast checkCoorthref cleanup outdir cs hits w1)"

text \<open>
  The choice of \<open>out_dict\<close> for a miRNA with accepted candidates: the accepted set itself
  when it has one entry, the answer of \<open>ReBlastParser.verify_coorthologs\<close> otherwise.
\<close>

definition select_verified ::
  "collab \<Rightarrow> Mirna \<Rightarrow> string \<Rightarrow> (string \<times> string) list \<Rightarrow> world \<Rightarrow>
   ((string \<times> string) list) res" where
  "select_verified env mirna outdir reblast_hits w =
     (let nr_accepted = length reblast_hits
      in if nr_accepted = 1
         then Ok reblast_hits (py_print (''# ncOrtho found 1 verified ortholog.'' @ nl) w)
         else
           (let w1 = py_print (''# ncOrtho found '' @ str_nat nr_accepted
                                 @ '' potential co-orthologs.'' @ nl) w;
                w2 = py_print
                       ''# Evaluating distance between candidates to verify co-orthologs'' w1
            in case call_ext (Call_verify_coorthologs (name mirna))
                      (verify_coorthologs env mirna reblast_hits outdir) w2 of
                 Raise e w3 \<Rightarrow> Raise e w3
               | Ok out_dict w3 \<Rightarrow>
                   Ok out_dict
                     (if length out_dict = 1
                      then py_print ''ncOrtho found 1 verified ortholog'' w3
                      else py_print (''# ncOrtho found '' @ str_nat (length out_dict)
                                       @ '' verified co-orthologs.'' @ nl) w3)))"

text \<open>
  The loop that writes the records:
  \<^verbatim>\<open>cmres = list(cm_results[hit]); cmres.insert(qname); header = '|'.join(cmres)\<close>
  \<^verbatim>\<open>of.write('>{0}\n{1}\n'.format(header, out_dict[hit]))\<close>
\<close>

fun write_records ::
  "string \<Rightarrow> (string \<times> string list) list \<Rightarrow> string \<Rightarrow> (string \<times> string) list \<Rightarrow> world \<Rightarrow>
   unit res" where
  "write_records qname cm_results outpath [] w = Ok () w"
| "write_records qname cm_results outpath (h # rest) w =
     (case map_of cm_results (fst h) of
        None \<Rightarrow> Raise KeyError w
      | Some cols \<Rightarrow>
          (case list_insert cols [PStr qname] of
             Inl e \<Rightarrow> Raise e w
           | Inr cmres \<Rightarrow>
               write_records qname cm_results outpath rest
                 (w\<lparr>disk := append_lines outpath [''>'' @ str_join ''|'' cmres, snd h]
                               (disk w)\<rparr>)))"

text \<open>The block \<open>if reblast_hits: ... else: ...\<close> that ends the loop body.\<close>

definition write_orthologs ::
  "collab \<Rightarrow> Mirna \<Rightarrow> string \<Rightarrow> string \<Rightarrow> (string \<times> string list) list \<Rightarrow>
   (string \<times> string) list \<Rightarrow> world \<Rightarrow> unit res" where
  "write_orthologs env mirna qname outdir cm_results reblast_hits w =
     (if reblast_hits \<noteq> []
      then (case select_verified env mirna outdir reblast_hits w of
              Raise e w1 \<Rightarrow> Raise e w1
            | Ok out_dict w1 \<Rightarrow>
                (let w2 = py_print (''# Writing output of accepted candidates.'' @ nl) w1;
                     outpath = outdir @ ''/'' @ name mirna @ ''_orthologs.fa'';
                     w3 = w2\<lparr>disk := write_lines outpath [] (disk w2)\<rparr>
                 in case write_records qname cm_results outpath out_dict w3 of
                      Raise e w4 \<Rightarrow> Raise e w4
                    | Ok u w4 \<Rightarrow> Ok () (py_print (''# Finished writing output.'' @ nl) w4)))
      else Ok () (py_print (''# None of the candidates for '' @ name mirna
                              @ '' could be verified.'' @ nl) w))"

text \<open>\<^verbatim>\<open>if heuristic: outdir = '{}'.format(output) else: outdir = '{}/{}'.format(output, mirna_id)\<close>\<close>

definition outdir_of :: "bool \<times> real \<times> real \<Rightarrow> string \<Rightarrow> string \<Rightarrow> string" where
  "outdir_of heuristic outp mirna_id =
     (if tuple_truthy heuristic then outp else outp @ ''/'' @ mirna_id)"

text \<open>
  The first part of the loop body over the miRNAs, up to the end of the loop over the
  candidates: the search, the cap, the extraction and the validation.  \<open>None\<close> is the
  \<open>continue\<close> of a search without hits; otherwise the result is \<open>cm_results\<close> after the
  cap and \<open>reblast_hits\<close>.
\<close>

definition find_accepted ::
  "collab \<Rightarrow> string \<Rightarrow> string \<Rightarrow> string \<Rightarrow> pyval \<Rightarrow> bool \<Rightarrow> bool \<Rightarrow> Mirna \<Rightarrow> world \<Rightarrow>
   (((string \<times> string list) list \<times> (string \<times> string) list) option) res" where
  "find_accepted env outdir qlink refblast max_hits checkCoorthref cleanup mirna w =
     (let mirna_id = name mirna;
          w1 = (if \<not> isdir (disk w) outdir then w\<lparr>disk := makedirs outdir (disk w)\<rparr> else w)
      in case call_ext (Call_cmsearcher mirna_id) (cmsearcher env mirna) w1 of
           Raise e w2 \<Rightarrow> Raise e w2
         | Ok found w2 \<Rightarrow>
             if found = []
             then Ok None (py_print (''# No hits found for '' @ mirna_id @ ''.'' @ nl) w2)
             else
               (case cap_hits max_hits found w2 of
                  Raise e w3 \<Rightarrow> Raise e w3
                | Ok cm_results w3 \<Rightarrow>
                    (case call_ext (Call_extract_sequences qlink)
                            (extract_sequences env qlink (map snd cm_results)) w3 of
                       Raise e w4 \<Rightarrow> Raise e w4
                     | Ok candidates w4 \<Rightarrow>
                         (let nr_candidates = length candidates;
                              w5 = py_print
                                     (if nr_candidates = 1
                                      then nl @ ''# Covariance model search successful, found 1 ''
                                             @ ''ortholog candidate.'' @ nl
                                      else nl @ ''# Covariance model search successful, found ''
                                             @ str_nat nr_candidates
                                             @ '' ortholog candidates.'' @ nl) w4;
                              w6 = py_print (''# Evaluating candidates.'' @ nl) w5
                          in case validate_all env mirna refblast checkCoorthref cleanup outdir
                                    candidates [] w6 of
                               Raise e w7 \<Rightarrow> Raise e w7
                             | Ok reblast_hits w7 \<Rightarrow> Ok (Some (cm_results, reblast_hits)) w7))))"

text \<open>The body of the loop over the miRNAs.\<close>

definition process_mirna ::
  "collab \<Rightarrow> string \<Rightarrow> string \<Rightarrow> string \<Rightarrow> string \<Rightarrow> bool \<times> real \<times> real \<Rightarrow> pyval \<Rightarrow> bool \<Rightarrow>
   bool \<Rightarrow> Mirna \<Rightarrow> world \<Rightarrow> unit res" where
  "process_mirna env outp qname qlink refblast heuristic max_hits checkCoorthref cleanup mirna w =
     (let outdir = outdir_of heuristic outp (name mirna)
      in case find_accepted env outdir qlink refblast max_hits checkCoorthref cleanup mirna w of
           Raise e w7 \<Rightarrow> Raise e w7
         | Ok None w7 \<Rightarrow> Ok () w7
         | Ok (Some found) w7 \<Rightarrow>
             (case write_orthologs env mirna qname outdir (fst found) (snd found) w7 of
                Raise e w8 \<Rightarrow> Raise e w8
              | Ok u w8 \<Rightarrow>
                  Ok () (py_print (''# Finished ortholog search for '' @ name mirna @ ''.'')
                           w8)))"

fun process_mirnas ::
  "collab \<Rightarrow> string \<Rightarrow> string \<Rightarrow> string \<Rightarrow> string \<Rightarrow> bool \<times> real \<times> real \<Rightarrow> pyval \<Rightarrow> bool \<Rightarrow>
   bool \<Rightarrow> Mirna list \<Rightarrow> world \<Rightarrow> unit res" where
  "process_mirnas env outp qname qlink refblast heuristic max_hits checkCoorthref cleanup [] w =
     Ok () w"
| "process_mirnas env outp qname qlink refblast heuristic max_hits checkCoorthref cleanup
       (m # ms) w =
     (case process_mirna env outp qname qlink refblast heuristic max_hits checkCoorthref cleanup
             m w of
        Raise e w1 \<Rightarrow> Raise e w1
      | Ok u w1 \<Rightarrow>
          process_mirnas env outp qname qlink refblast heuristic max_hits checkCoorthref cleanup
            ms w1)"

section \<open>main: arguments, checks and the run\<close>

text \<open>
  The namespace that \<open>parse_args\<close> returns, with the options the decisions of \<open>main\<close>
  read.  \<open>--cpu\<close> has \<open>type=int\<close>, \<open>--cleanup\<close> and \<open>--checkCoorthologsRef\<close> have
  \<open>type=str2bool\<close>.  \<open>--maxcmhits\<close> is declared without a \<open>type\<close>:
  \<^verbatim>\<open>optional.add_argument('--maxcmhits', metavar='int', nargs='?', const=50, default=50, ...)\<close>
  so it is the integer 50 when the option is absent or given without a value, and the text
  of the value when one is given.
\<close>

definition maxcmhits_option :: "string option option \<Rightarrow> pyval" where
  "maxcmhits_option given =
     (case given of
        None \<Rightarrow> PInt 50
      | Some None \<Rightarrow> PInt 50
      | Some (Some s) \<Rightarrow> PStr s)"

record args =
  args_cpu :: int
  args_ncrna :: string
  args_models :: string
  args_output :: string
  args_query :: string
  args_reference :: string
  args_queryname :: string
  args_heuristic :: bool
  args_heur_blast_evalue :: real
  args_heur_blast_length :: real
  args_cleanup :: bool
  args_refblast :: string
  args_queryblast :: string
  args_maxcmhits :: pyval
  args_checkCoorthologsRef :: bool

text \<open>The five lines of the banner.\<close>

definition print_header :: "world \<Rightarrow> world" where
  "print_header w =
     py_print (replicate 57 CHR ''#'' @ nl)
       (py_print (''###'' @ replicate 51 CHR '' '' @ ''###'')
         (py_print ''###   ncOrtho - ortholog search for non-coding RNAs   ###''
           (py_print (''###'' @ replicate 51 CHR '' '' @ ''###'')
             (py_print (nl @ replicate 57 CHR ''#'') w))))"

text \<open>\<open>path.split('/')[-1]\<close>; a split has at least one piece.\<close>

definition last_component :: "string \<Rightarrow> string" where
  "last_component p = last (split_at ''/'' [] p)"

text \<open>\<open>'.'.join(query.split('/')[-1].split('.')[:-1])\<close>\<close>

definition default_qname :: "string \<Rightarrow> string" where
  "default_qname q = str_join ''.'' (butlast (split_at ''.'' [] (last_component q)))"

text \<open>
  The loop over the input files:
  \<^verbatim>\<open>if not os.path.isfile(pth): print(f'ERROR: {pth} is not a file'); sys.exit()\<close>
\<close>

fun check_input_files :: "string list \<Rightarrow> world \<Rightarrow> unit res" where
  "check_input_files [] w = Ok () w"
| "check_input_files (pth # pths) w =
     (if \<not> isfile (disk w) pth
      then Raise (SystemExit None) (py_print (''ERROR: '' @ pth @ '' is not a file'') w)
      else check_input_files pths w)"

text \<open>
  \<open>os.symlink(query, qlink)\<close> with its \<open>except FileExistsError: pass\<close>: a new path that
  reads as the query file, unless the path is taken.
\<close>

definition symlink :: "string \<Rightarrow> string \<Rightarrow> fsys \<Rightarrow> fsys" where
  "symlink src dst f =
     (if isfile f dst \<or> isdir f dst then f
      else (case map_of (files f) src of
              None \<Rightarrow> f
            | Some ls \<Rightarrow> write_lines dst ls f))"

text \<open>The reference database: given and checked, or looked for in the data folder and built.\<close>

definition setup_refblast ::
  "collab \<Rightarrow> string \<Rightarrow> string \<Rightarrow> string \<Rightarrow> world \<Rightarrow> string res" where
  "setup_refblast env given reference q_data w =
     (if given \<noteq> []
      then (case check_blastdb (glob_matches env) given (disk w) of
              (found, d) \<Rightarrow>
                if \<not> found
                then Raise (SystemExit None)
                       (py_print (''# Reference BLASTdb not found at: '' @ given) (w\<lparr>disk := d\<rparr>))
                else Ok given (w\<lparr>disk := d\<rparr>))
      else (let refname = last_component reference;
                refblast = q_data @ ''/'' @ refname
            in case check_blastdb (glob_matches env) refblast (disk w) of
                 (found, d) \<Rightarrow>
                   if \<not> found
                   then Ok refblast
                          (run_cmd (Run_makeblastdb refblast)
                             (makeblastdb_cmd env reference refblast) (w\<lparr>disk := d\<rparr>))
                   else Ok refblast (w\<lparr>disk := d\<rparr>)))"

text \<open>The query database, the same way, under \<open>if qblast and heuristic: ... elif heuristic: ...\<close>.\<close>

definition setup_qblast ::
  "collab \<Rightarrow> string \<Rightarrow> bool \<times> real \<times> real \<Rightarrow> string \<Rightarrow> string \<Rightarrow> world \<Rightarrow> string res" where
  "setup_qblast env given heuristic query qlink w =
     (if given \<noteq> [] \<and> tuple_truthy heuristic
      then (case check_blastdb (glob_matches env) given (disk w) of
              (found, d) \<Rightarrow>
                if \<not> found
                then Raise (SystemExit None)
                       (py_print (''# Query BLASTdb not found at: '' @ given) (w\<lparr>disk := d\<rparr>))
                else Ok given (w\<lparr>disk := d\<rparr>))
      else if tuple_truthy heuristic
      then (case check_blastdb (glob_matches env) qlink (disk w) of
              (found, d) \<Rightarrow>
                if \<not> found
                then Ok qlink
                       (run_cmd (Run_makeblastdb qlink) (makeblastdb_cmd env query qlink)
                          (py_print ''# Creating query Database'' (w\<lparr>disk := d\<rparr>)))
                else Ok qlink (w\<lparr>disk := d\<rparr>))
      else Ok given w)"

text \<open>
  \<open>main\<close>, from the banner to the last line, for \<open>len(sys.argv) = argc\<close> and
  \<open>mp.cpu_count() = available_cpu\<close>.  With \<open>argc = 1\<close> the arguments are never parsed.
\<close>

definition main :: "collab \<Rightarrow> nat \<Rightarrow> int \<Rightarrow> args \<Rightarrow> world \<Rightarrow> unit res" where
  "main env argc available_cpu a w0 =
     (let w = print_header w0
      in if argc = 1 then Raise (SystemExit (Some 1)) (emit Print_help w)
         else if args_cpu a > available_cpu
         then Raise (SystemExit (Some 1))
                (py_print (''# Error: The provided number of CPU cores is higher than the ''
                             @ ''number available on this system. Exiting...'') w)
         else
           (let mirnas = args_ncrna a;
                models = args_models a;
                query = args_query a;
                reference = args_reference a;
                max_hits = args_maxcmhits a;
                checkCoorthref = args_checkCoorthologsRef a;
                cleanup = args_cleanup a;
                heuristic = (args_heuristic a, args_heur_blast_evalue a,
                             args_heur_blast_length a);
                qname = (if args_queryname a \<noteq> [] then args_queryname a
                         else default_qname query);
                outp = (if \<not> last_component (args_output a) = qname
                        then args_output a @ ''/'' @ qname else args_output a)
            in case check_input_files [mirnas, reference, query] w of
                 Raise e w1 \<Rightarrow> Raise e w1
               | Ok u w1 \<Rightarrow>
                   if \<not> isdir (disk w1) models
                   then Raise (SystemExit None)
                          (py_print (''ERROR: Directory with covariance models does not ''
                                       @ ''exist at: '' @ models) w1)
                   else
                     (let q_data = outp @ ''/data'';
                          w2 = (if \<not> isdir (disk w1) q_data
                                then w1\<lparr>disk := makedirs q_data (disk w1)\<rparr> else w1);
                          qlink = q_data @ ''/'' @ qname @ ''.fa'';
                          w3 = w2\<lparr>disk := symlink query qlink (disk w2)\<rparr>
                      in case setup_refblast env (args_refblast a) reference q_data w3 of
                           Raise e w4 \<Rightarrow> Raise e w4
                         | Ok refblast w4 \<Rightarrow>
                             (case setup_qblast env (args_queryblast a) heuristic query qlink
                                     w4 of
                                Raise e w5 \<Rightarrow> Raise e w5
                              | Ok qblast w5 \<Rightarrow>
                                  (let w6 = py_print (''### Starting ncOrtho run for '' @ query)
                                              w5
                                   in case mirna_maker env mirnas models outp w6 of
                                        Raise e w7 \<Rightarrow> Raise e w7
                                      | Ok mirna_dict w7 \<Rightarrow>
                                          (case process_mirnas env outp qname qlink refblast
                                                  heuristic max_hits checkCoorthref cleanup
                                                  (map snd mirna_dict) w7 of
                                             Raise e w8 \<Rightarrow> Raise e w8
                                           | Ok u8 w8 \<Rightarrow>
                                               Ok () (py_print ''### ncOrtho is finished!''
                                                        w8)))))))"

text \<open>
  The exit status of the process: 0 when \<open>main\<close> returns, the code of \<open>sys.exit\<close> (0 when
  none is given), and 1 for any other exception, which nothing catches.
\<close>

definition exit_status :: "unit res \<Rightarrow> nat" where
  "exit_status r =
     (case r of
        Ok u w \<Rightarrow> 0
      | Raise e w \<Rightarrow>
          (case e of
             SystemExit None \<Rightarrow> 0
           | SystemExit (Some n) \<Rightarrow> n
           | _ \<Rightarrow> 1))"

section \<open>Reading a run\<close>

text \<open>The world a statement leaves, the exception it raised, and the events it added.\<close>

definition world_of :: "'a res \<Rightarrow> world" where
  "world_of r = (case r of Ok a w \<Rightarrow> w | Raise e w \<Rightarrow> w)"

definition raised :: "'a res \<Rightarrow> error option" where
  "raised r = (case r of Ok a w \<Rightarrow> None | Raise e w \<Rightarrow> Some e)"

definition new_events :: "world \<Rightarrow> 'a res \<Rightarrow> event list" where
  "new_events w r = drop (length (trace w)) (trace (world_of r))"

fun is_verify_call :: "event \<Rightarrow> bool" where
  "is_verify_call (Call_verify_coorthologs x) = True"
| "is_verify_call e = False"

fun is_removal :: "event \<Rightarrow> bool" where
  "is_removal (Os_remove p) = True"
| "is_removal e = False"

fun is_search_event :: "event \<Rightarrow> bool" where
  "is_search_event (Run_cmsearch p) = True"
| "is_search_event (Call_cmsearcher m) = True"
| "is_search_event e = False"

text \<open>The trace only grows: \<open>w'\<close> has the trace of \<open>w\<close> and then events that satisfy \<open>P\<close>.\<close>

definition grows :: "(event \<Rightarrow> bool) \<Rightarrow> world \<Rightarrow> world \<Rightarrow> bool" where
  "grows P w w' \<longleftrightarrow>
     take (length (trace w)) (trace w') = trace w \<and>
     list_all P (drop (length (trace w)) (trace w'))"

text \<open>The accepted set that the first part of the loop body hands to the second.\<close>

definition accepted_hits ::
  "(((string \<times> string list) list \<times> (string \<times> string) list) option) res \<Rightarrow>
   (string \<times> string) list" where
  "accepted_hits r = (case r of Ok (Some found) w \<Rightarrow> snd found | _ \<Rightarrow> [])"


section \<open>Collaborators for the examples\<close>

text \<open>
  Decimal numerals as the tools write them, for the examples: \<open>int\<close> and \<open>float\<close> on an
  optional sign, digits and, for \<open>float\<close>, an optional fraction.  The examples use only
  numerals whose value a float holds exactly.
\<close>

definition digit_of :: "char \<Rightarrow> nat option" where
  "digit_of c = map_of (zip ''0123456789'' [0, 1, 2, 3, 4, 5, 6, 7, 8, 9]) c"

fun digits_value :: "nat \<Rightarrow> string \<Rightarrow> nat option" where
  "digits_value acc [] = Some acc"
| "digits_value acc (c # cs) =
     (case digit_of c of None \<Rightarrow> None | Some k \<Rightarrow> digits_value (10 * acc + k) cs)"

definition dec_nat :: "string \<Rightarrow> nat option" where
  "dec_nat s = (if s = [] then None else digits_value 0 s)"

definition dec_int :: "string \<Rightarrow> int option" where
  "dec_int s =
     (case s of
        [] \<Rightarrow> None
      | c # cs \<Rightarrow>
          if c = CHR ''-'' then map_option (\<lambda>n. - int n) (dec_nat cs)
          else map_option int (dec_nat s))"

definition dec_unsigned :: "string \<Rightarrow> real option" where
  "dec_unsigned s =
     (let whole = takeWhile (\<lambda>c. c \<noteq> CHR ''.'') s;
          frac = drop 1 (dropWhile (\<lambda>c. c \<noteq> CHR ''.'') s)
      in case dec_nat whole of
           None \<Rightarrow> None
         | Some a \<Rightarrow>
             if frac = [] then Some (real a)
             else (case dec_nat frac of
                     None \<Rightarrow> None
                   | Some b \<Rightarrow> Some (real a + real b / 10 ^ length frac)))"

definition dec_float :: "string \<Rightarrow> real option" where
  "dec_float s =
     (case s of
        [] \<Rightarrow> None
      | c # cs \<Rightarrow>
          if c = CHR ''-'' then map_option uminus (dec_unsigned cs)
          else dec_unsigned s)"

text \<open>
  A collaborator set for the examples, scripted by three predicates on the candidate's
  BLAST output path: whether \<open>blastn\<close> writes it, whether the best-hit evaluation
  succeeds on it, and whether that evaluation raises.  The homology search finds the three
  loci of the specification's scenario, scored 40, 38 and 10; the extractor names each
  candidate by its locus; the resolver keeps the first of the accepted candidates.
\<close>

definition example_loci :: "(string \<times> string list) list" where
  "example_loci =
     [(''c1'', [''c1'', ''chr2'', ''100'', ''180'', ''+'', ''40.0'']),
      (''c2'', [''c2'', ''chr5'', ''700'', ''781'', ''-'', ''38.0'']),
      (''c3'', [''c3'', ''chr9'', ''300'', ''379'', ''+'', ''10.0''])]"

definition example_table :: "string list" where
  "example_table =
     [''#target name accession query name accession mdl'',
      ''mir-1 - mir-1 - cm 1 80 1 80 + no 1 0.45 0.0 42.0 2.1e-10 ! -'']"

definition example_env :: "(string \<Rightarrow> bool) \<Rightarrow> (string \<Rightarrow> bool) \<Rightarrow> (string \<Rightarrow> bool) \<Rightarrow> collab" where
  "example_env blast_writes best_hit best_raises =
     \<lparr> py_int = dec_int,
       py_float = dec_float,
       glob_matches = star_match,
       cmsearch_cmd = (\<lambda>tbl model query log d. write_lines tbl example_table d),
       blastn_cmd = (\<lambda>db query out d. if blast_writes out then write_lines out [] d else d),
       makeblastdb_cmd = (\<lambda>inp out d. write_lines (out @ ''.nhr'') []
                            (write_lines (out @ ''.nin'') [] (write_lines (out @ ''.nsq'') [] d))),
       cmsearcher = (\<lambda>m d. Returns example_loci d),
       extract_sequences = (\<lambda>q vals d. Returns (map (\<lambda>v. (hd v, ''ACGT'')) vals) d),
       evaluate_besthit = (\<lambda>m out d. if best_raises out then Raises FileNotFoundError d
                                      else Returns (best_hit out) d),
       check_coortholog_ref = (\<lambda>m out sq outdir d. Returns False d),
       verify_coorthologs = (\<lambda>m hits outdir d. Returns (take 1 hits) d) \<rparr>"

definition example_mirna :: Mirna where
  "example_mirna =
     \<lparr> name = ''mir-1'', chromosome = ''1'', start = 100, end_pos = 180, strand = ''+'',
       pre = ''GGATTC'', mature = ''GATT'', bit = 42 \<rparr>"

definition empty_world :: world where
  "empty_world = \<lparr> disk = \<lparr> files = [], dirs = [] \<rparr>, trace = [] \<rparr>"

text \<open>
  Worlds for the calibration examples: a row of the miRNA file; a world with the model of
  the miRNA; one where a result table of an earlier run is already there, with a first hit
  of score \<open>0.0\<close>; one where that table holds no hit line; and one where it was cut off
  after three fields.
\<close>

definition example_row :: "string list" where
  "example_row = [''mir-1'', ''chr1'', ''100'', ''180'', ''+'', ''GGAUUC'', ''GAUU'']"





text \<open>
  A complete run for the examples: the arguments with their defaults, and a world with the
  miRNA file, the two genomes and the model folder.
\<close>

definition example_args :: args where
  "example_args =
     \<lparr> args_cpu = 4, args_ncrna = ''mirnas.tsv'', args_models = ''cm'', args_output = ''out'',
       args_query = ''query.fa'', args_reference = ''ref.fa'', args_queryname = [],
       args_heuristic = True, args_heur_blast_evalue = 1 / 2, args_heur_blast_length = 1 / 2,
       args_cleanup = True, args_refblast = [], args_queryblast = [],
       args_maxcmhits = maxcmhits_option None, args_checkCoorthologsRef = False \<rparr>"

definition example_run_world :: world where
  "example_run_world =
     \<lparr> disk = \<lparr> files = [(''mirnas.tsv'', [''#name chr start end strand pre mature'',
                                            ''mir-1 chr1 100 180 + GGAUUC GAUU'']),
                           (''ref.fa'', []), (''query.fa'', []), (''cm/mir-1.cm'', [])],
                  dirs = [''cm''] \<rparr>,
       trace = [] \<rparr>"

definition cpu_error_line :: string where
  "cpu_error_line = ''# Error: The provided number of CPU cores is higher than the ''
                      @ ''number available on this system. Exiting...''"

section \<open>Properties of the Mirna record\<close>

lemma split_at_no_occurrence:
  assumes "sep \<noteq> []" and "\<forall>n. \<not> startswith (drop n s) sep"
  shows "split_at sep piece s = [piece @ s]"
  using assms
proof (induction s arbitrary: piece)
  case Nil
  then show ?case by simp
next
  case (Cons c cs)
  from Cons.prems(2) have here: "\<not> startswith (c # cs) sep"
    by (metis drop0)
  have later: "\<forall>n. \<not> startswith (drop n cs) sep"
  proof
    fix n
    show "\<not> startswith (drop n cs) sep"
      using Cons.prems(2) [rule_format, of "Suc n"] by simp
  qed
  show ?case
    using here Cons.IH [OF Cons.prems(1) later] by simp
qed

text \<open>
  A name that does not start with \<open>chr\<close> is stored as it is, and a name \<open>chr\<close> followed by
  a rest in which \<open>chr\<close> does not occur again is stored as that rest.
\<close>

lemma norm_chromosome_unprefixed:
  "\<not> startswith s ''chr'' \<Longrightarrow> norm_chromosome s = Inr s"
  by (simp add: norm_chromosome_def)

lemma norm_chromosome_single_chr:
  "\<forall>n. \<not> startswith (drop n rest) ''chr'' \<Longrightarrow> norm_chromosome (''chr'' @ rest) = Inr rest"
  using split_at_no_occurrence [of "''chr''" rest "[]"]
  by (simp add: norm_chromosome_def str_split_def py_index_def)

text \<open>
  C9.  The claim says that for every name \<open>'chr' + rest\<close> the stored chromosome is
  \<open>rest\<close>.  The code takes the second piece of \<open>chromosome.split('chr')\<close>, so a rest
  that contains \<open>chr\<close> again is cut at that occurrence: for the name \<open>chrUn_chr1\<close> the
  record stores \<open>Un_\<close>, not \<open>Un_chr1\<close>.
\<close>

theorem Mirna_init_chromosome_cut:
  "map_sum id chromosome
     (Mirna_init (\<lambda>s. Some 0) ''mir-1'' ''chrUn_chr1'' ''10'' ''90'' ''+'' ''GGAU'' ''GAU'' 0)
     = Inr ''Un_''
   \<and> ''chrUn_chr1'' = ''chr'' @ ''Un_chr1''"
  by (simp add: Mirna_init_def norm_chromosome_def str_split_def py_index_def)

section \<open>Properties of the BLAST database check\<close>

lemma check_extensions_all:
  "check_extensions matches db_path fes fs =
     ((\<forall>fe \<in> set fes. glob_glob matches fs (db_path @ ''*'' @ fe) \<noteq> []), fs)"
  by (induction fes) (auto simp: Let_def)

text \<open>
  C10.  \<open>check_blastdb\<close> returns \<open>True\<close> exactly when each of the extensions \<open>nhr\<close>,
  \<open>nin\<close> and \<open>nsq\<close> has at least one path of the file system that matches the pattern
  \<open>db_path*extension\<close>; it returns a boolean for every input, and the file system after
  the call is the one before it.
\<close>

theorem check_blastdb_iff:
  "check_blastdb matches db_path fs =
     ((\<forall>fe \<in> set [''nhr'', ''nin'', ''nsq''].
         \<exists>p \<in> set (map fst (files fs) @ dirs fs). matches (db_path @ ''*'' @ fe) p),
      fs)"
proof -
  have nonempty: "glob_glob matches fs pat \<noteq> [] \<longleftrightarrow>
      (\<exists>p \<in> set (map fst (files fs) @ dirs fs). matches pat p)" for pat
    unfolding glob_glob_def filter_empty_conv by blast
  show ?thesis
    unfolding check_blastdb_def check_extensions_all nonempty ..
qed

theorem check_blastdb_iff_witness:
  "check_blastdb star_match ''db/ref''
     \<lparr> files = [(''db/ref.fa.nhr'', []), (''db/ref.fa.nin'', []), (''db/ref.fa.nsq'', [])],
       dirs = [''db''] \<rparr>
     = (True,
        \<lparr> files = [(''db/ref.fa.nhr'', []), (''db/ref.fa.nin'', []), (''db/ref.fa.nsq'', [])],
          dirs = [''db''] \<rparr>)
   \<and> fst (check_blastdb star_match ''db/ref''
          \<lparr> files = [(''db/ref.fa.nhr'', []), (''db/ref.fa.nin'', [])], dirs = [''db''] \<rparr>)
     = False"
  unfolding check_blastdb_iff by simp

section \<open>Evaluating the examples\<close>

lemmas world_defs =
  emit_def py_print_def isfile_def isdir_def read_lines_def write_lines_def append_lines_def
  shell_rm_def makedirs_def os_remove_def run_cmd_def call_ext_def world_of_def raised_def
  new_events_def Let_def

lemmas candidate_defs =
  validate_candidate_def decide_candidate_def cleanup_candidate_def reverse_blast_def
  temp_fasta_of_def blast_output_of_def

lemmas example_defs =
  example_env_def example_mirna_def example_loci_def example_table_def empty_world_def

lemmas pipeline_defs =
  process_mirna_def find_accepted_def outdir_of_def tuple_truthy_def cap_hits_def truthy_def
  len_gt_def slice_upto_def dict_restrict_def py_format_def str_int_def str_nat.simps
  write_orthologs_def select_verified_def list_insert_def

section \<open>The acceptance rule of the reciprocal validation\<close>




section \<open>The cap on the search hits\<close>

lemma update_new_key: "k \<notin> fst ` set acc \<Longrightarrow> AList.update k v acc = acc @ [(k, v)]"
  by (induction acc) auto

lemma dict_restrict_into_entries:
  assumes "distinct (map fst d)" and "set xs \<subseteq> set d" and "distinct (map fst (acc @ xs))"
  shows "dict_restrict_into acc d (map fst xs) = Inr (acc @ xs)"
  using assms
proof (induction xs arbitrary: acc)
  case Nil
  then show ?case by simp
next
  case (Cons x xs)
  obtain k v where x: "x = (k, v)" by (cases x)
  from Cons.prems x have look: "map_of d k = Some v" by simp
  from Cons.prems x have fresh: "k \<notin> fst ` set acc" by auto
  have step: "AList.update k v acc = acc @ [(k, v)]" using fresh by (rule update_new_key)
  have "dict_restrict_into (acc @ [(k, v)]) d (map fst xs) = Inr ((acc @ [(k, v)]) @ xs)"
    using Cons.prems x by (intro Cons.IH) auto
  then show ?case using x look step by simp
qed

lemma dict_restrict_take:
  assumes "distinct (map fst d)"
  shows "dict_restrict d (take n (map fst d)) = Inr (take n d)"
proof -
  have "dict_restrict_into [] d (map fst (take n d)) = Inr ([] @ take n d)"
    using assms
    by (intro dict_restrict_into_entries)
       (auto simp: set_take_subset distinct_take take_map [symmetric])
  then show ?thesis by (simp add: dict_restrict_def take_map)
qed

text \<open>
  With an integer cap, which is what the default of the option gives, the code does what
  the claim says: more hits than the cap are cut to the first \<open>n\<close> in their order, and
  fewer are kept as they are.  The keys of a dictionary are distinct.
\<close>

lemma cap_hits_integer:
  assumes "distinct (map fst cm)" and "0 < n"
  shows "cap_hits (PInt n) cm w =
           (if int (length cm) > n
            then Ok (take (nat n) cm)
                   (py_print (''# Maximum CMsearch hits reached. Restricting to best ''
                                @ str_int n @ '' hits'') w)
            else Ok cm w)"
  using assms dict_restrict_take [of cm "nat n"]
  by (simp add: cap_hits_def truthy_def len_gt_def slice_upto_def py_format_def Let_def)

lemma cap_hits_integer_example:
  "distinct (map fst example_loci) \<and> (0::int) < 2 \<and>
   cap_hits (PInt 2) example_loci empty_world =
     Ok (take 2 example_loci)
       (py_print ''# Maximum CMsearch hits reached. Restricting to best 2 hits'' empty_world)"
  using cap_hits_integer [of example_loci 2 empty_world]
  by (simp add: example_defs str_int_def str_nat.simps)

lemma cap_hits_disabled: "cap_hits (PStr []) cm w = Ok cm w"
  by (simp add: cap_hits_def truthy_def)

lemma cap_hits_text: "s \<noteq> [] \<Longrightarrow> cap_hits (PStr s) cm w = Raise TypeError w"
  by (simp add: cap_hits_def truthy_def len_gt_def)

text \<open>
  C3.  The claim is about the configured cap.  A cap given on the command line reaches
  \<open>main\<close> as text, since \<open>--maxcmhits\<close> is declared without \<open>type=int\<close>, and
  \<open>len(cm_results) > max_hits\<close> then raises \<open>TypeError\<close>: in the scenario of the
  specification (three loci, cap 2) the loop body ends with the exception right after the
  search, and no locus is retained.
\<close>

theorem cap_from_command_line_raises:
  "find_accepted (example_env (\<lambda>p. True) (\<lambda>p. True) (\<lambda>p. False)) ''out''
     ''out/data/query.fa'' ''ref'' (maxcmhits_option (Some (Some ''2''))) False True
     example_mirna empty_world
   = Raise TypeError
       \<lparr>disk = \<lparr>files = [], dirs = [''out'']\<rparr>, trace = [Call_cmsearcher ''mir-1'']\<rparr>"
  by (simp add: find_accepted_def cap_hits_def truthy_def len_gt_def maxcmhits_option_def
        world_defs example_defs)

section \<open>Writing the verified orthologs\<close>

text \<open>
  The loop that writes the records raises at its first entry, whatever the entry is:
  \<open>KeyError\<close> when the locus is unknown, \<open>TypeError\<close> from \<open>insert\<close> otherwise.
\<close>

lemma write_records_raises:
  "out_dict \<noteq> [] \<Longrightarrow>
   \<exists>e. write_records qname cm outpath out_dict w = Raise e w \<and> (e = KeyError \<or> e = TypeError)"
  by (cases out_dict) (auto simp: list_insert_def split: option.splits)

text \<open>
  C5.  The claim says that a miRNA with a verified candidate gets an output file with one
  record per candidate.  \<open>cmres.insert(qname)\<close> passes one argument where \<open>list.insert\<close>
  takes an index and an object, so the first record raises \<open>TypeError\<close>: the file has been
  opened and stays empty, and the exception leaves the loop over the miRNAs.
\<close>

theorem write_orthologs_raises:
  "write_orthologs (example_env (\<lambda>p. True) (\<lambda>p. True) (\<lambda>p. False)) example_mirna ''query''
     ''out'' example_loci [(''c1'', ''ACGT'')] empty_world
   = Raise TypeError
       \<lparr>disk = \<lparr>files = [(''out/mir-1_orthologs.fa'', [])], dirs = []\<rparr>,
        trace = [Print (''# ncOrtho found 1 verified ortholog.'' @ nl),
                 Print (''# Writing output of accepted candidates.'' @ nl)]\<rparr>"
  by (simp add: write_orthologs_def select_verified_def list_insert_def world_defs example_defs)

section \<open>The trace of the loop body\<close>

lemma grows_iff: "grows P w w' \<longleftrightarrow> (\<exists>evs. trace w' = trace w @ evs \<and> list_all P evs)"
  unfolding grows_def
  by (metis append_eq_conv_conj append_take_drop_id)

lemma grows_refl [simp]: "grows P w w"
  by (simp add: grows_def)

lemma grows_trans: "grows P w w1 \<Longrightarrow> grows P w1 w2 \<Longrightarrow> grows P w w2"
  unfolding grows_iff by auto

lemma grows_emit: "P e \<Longrightarrow> grows P w (emit e w)"
  by (simp add: grows_def emit_def)

lemma grows_print [simp]: "P (Print s) \<Longrightarrow> grows P w (py_print s w)"
  by (simp add: py_print_def grows_emit)

lemma grows_disk_right [simp]: "grows P w (w'\<lparr>disk := d\<rparr>) = grows P w w'"
  by (simp add: grows_def)

lemma grows_disk_left [simp]: "grows P (w\<lparr>disk := d\<rparr>) w' = grows P w w'"
  by (simp add: grows_def)

lemma grows_step: "grows P w w1 \<Longrightarrow> P e \<Longrightarrow> grows P w (emit e w1)"
  by (meson grows_emit grows_trans)

lemma grows_step_print: "grows P w w1 \<Longrightarrow> P (Print s) \<Longrightarrow> grows P w (py_print s w1)"
  by (simp add: py_print_def grows_step)

lemma grows_call_ext: "P e \<Longrightarrow> grows P w (world_of (call_ext e f w))"
  by (auto simp: call_ext_def world_of_def Let_def grows_emit split: ext.splits)

lemma grows_run_cmd: "P e \<Longrightarrow> grows P w (run_cmd e f w)"
  by (simp add: run_cmd_def Let_def grows_emit)

lemma grows_os_remove: "P (Os_remove p) \<Longrightarrow> grows P w (world_of (os_remove p w))"
  by (simp add: os_remove_def world_of_def Let_def grows_emit)

lemma grows_cleanup:
  "P (Os_remove tf) \<Longrightarrow> P (Os_remove bo) \<Longrightarrow> grows P w (world_of (cleanup_candidate cl tf bo w))"
  by (auto simp: cleanup_candidate_def os_remove_def world_of_def Let_def grows_def emit_def)

lemma grows_decide:
  assumes "\<And>s. P (Print s)" "\<And>s. P (Call_evaluate_besthit s)" "\<And>s. P (Call_check_coortholog_ref s)"
  shows "grows P w (world_of (decide_candidate env mirna chk outdir bo c sq hits w))"
  using assms
  by (auto simp: decide_candidate_def call_ext_def py_print_def world_of_def Let_def grows_def emit_def
           split: ext.splits)

lemma grows_reverse_blast:
  assumes "\<And>s. P (Print s)" "\<And>s. P (Run_blastn s)"
  shows "grows P w (reverse_blast env refblast outdir c sq w)"
  using assms
  by (simp add: reverse_blast_def run_cmd_def py_print_def Let_def grows_def emit_def)

lemma grows_validate_candidate:
  assumes "\<And>s. P (Print s)" "\<And>s. P (Run_blastn s)" "\<And>s. P (Call_evaluate_besthit s)"
    "\<And>s. P (Call_check_coortholog_ref s)" "\<And>s. P (Os_remove s)"
  shows "grows P w (world_of (validate_candidate env mirna refblast chk cl outdir c sq hits w))"
proof -
  let ?w4 = "reverse_blast env refblast outdir c sq w"
  let ?d = "decide_candidate env mirna chk outdir (blast_output_of outdir c) c sq hits ?w4"
  have a: "grows P w ?w4" using assms by (intro grows_reverse_blast)
  have b: "grows P ?w4 (world_of ?d)" using assms by (intro grows_decide)
  show ?thesis
  proof (cases ?d)
    case (Raise e w5)
    with a b show ?thesis
      by (simp add: validate_candidate_def world_of_def) (metis grows_trans)
  next
    case (Ok hits1 w5)
    let ?c = "cleanup_candidate cl (temp_fasta_of outdir c) (blast_output_of outdir c) w5"
    have c: "grows P w5 (world_of ?c)" using assms by (intro grows_cleanup)
    from a b Ok have "grows P w w5" by (simp add: world_of_def) (metis grows_trans)
    from this c have "grows P w (world_of ?c)" by (rule grows_trans)
    then show ?thesis using Ok
      by (cases ?c) (simp_all add: validate_candidate_def world_of_def)
  qed
qed

lemma grows_validate_all:
  assumes "\<And>s. P (Print s)" "\<And>s. P (Run_blastn s)" "\<And>s. P (Call_evaluate_besthit s)"
    "\<And>s. P (Call_check_coortholog_ref s)" "\<And>s. P (Os_remove s)"
  shows "grows P w (world_of (validate_all env mirna refblast chk cl outdir cs hits w))"
proof (induction cs arbitrary: hits w)
  case Nil
  show ?case by (simp add: world_of_def)
next
  case (Cons c cs)
  let ?v = "validate_candidate env mirna refblast chk cl outdir (fst c) (snd c) hits w"
  have a: "grows P w (world_of ?v)" using assms by (intro grows_validate_candidate)
  show ?case
  proof (cases ?v)
    case (Raise e w1)
    with a show ?thesis by simp
  next
    case (Ok hits1 w1)
    with a have "grows P w w1" by (simp add: world_of_def)
    then show ?thesis using Ok Cons.IH [where hits = hits1 and w = w1]
      by (simp add: grows_trans)
  qed
qed


lemma grows_cap_hits:
  assumes "\<And>s. P (Print s)"
  shows "grows P w (world_of (cap_hits max_hits cm w))"
  using assms
  by (auto simp: cap_hits_def py_print_def world_of_def Let_def grows_def emit_def
           split: sum.splits bool.splits)

lemma grows_find_accepted:
  assumes "\<And>s. P (Print s)" "\<And>s. P (Run_blastn s)" "\<And>s. P (Call_evaluate_besthit s)"
    "\<And>s. P (Call_check_coortholog_ref s)" "\<And>s. P (Os_remove s)"
    "\<And>s. P (Call_cmsearcher s)" "\<And>s. P (Call_extract_sequences s)"
  shows "grows P w (world_of (find_accepted env outdir qlink refblast max_hits chk cl mirna w))"
proof -
  let ?w1 = "if \<not> isdir (disk w) outdir then w\<lparr>disk := makedirs outdir (disk w)\<rparr> else w"
  let ?s = "call_ext (Call_cmsearcher (name mirna)) (cmsearcher env mirna) ?w1"
  have s: "grows P w (world_of ?s)"
    using grows_call_ext [of P "Call_cmsearcher (name mirna)" ?w1 "cmsearcher env mirna"] assms(6)
    by (auto split: if_splits)
  show ?thesis
  proof (cases ?s)
    case (Raise e w2)
    with s show ?thesis by (simp add: find_accepted_def Let_def world_of_def)
  next
    case s_ok: (Ok found w2)
    with s have w2: "grows P w w2" by (simp add: world_of_def)
    show ?thesis
    proof (cases "found = []")
      case True
      with s_ok w2 assms(1) show ?thesis
        by (simp add: find_accepted_def Let_def world_of_def grows_step_print)
    next
      case False
      let ?c = "cap_hits max_hits found w2"
      have c: "grows P w (world_of ?c)"
        using w2 grows_cap_hits [of P w2 max_hits found] assms(1) by (metis grows_trans)
      show ?thesis
      proof (cases ?c)
        case (Raise e w3)
        with c s_ok False show ?thesis by (simp add: find_accepted_def Let_def world_of_def)
      next
        case c_ok: (Ok cm_results w3)
        with c have w3: "grows P w w3" by (simp add: world_of_def)
        let ?x = "call_ext (Call_extract_sequences qlink)
                    (extract_sequences env qlink (map snd cm_results)) w3"
        have x: "grows P w (world_of ?x)"
          using w3 grows_call_ext [of P "Call_extract_sequences qlink" w3] assms(7)
          by (metis grows_trans)
        show ?thesis
        proof (cases ?x)
          case (Raise e w4)
          with x s_ok False c_ok show ?thesis
            by (simp add: find_accepted_def Let_def world_of_def)
        next
          case x_ok: (Ok candidates w4)
          with x have w4: "grows P w w4" by (simp add: world_of_def)
          define w6 where "w6 = py_print (''# Evaluating candidates.'' @ nl)
            (py_print (if length candidates = 1
                       then nl @ ''# Covariance model search successful, found 1 ''
                              @ ''ortholog candidate.'' @ nl
                       else nl @ ''# Covariance model search successful, found ''
                              @ str_nat (length candidates) @ '' ortholog candidates.'' @ nl) w4)"
          have w6: "grows P w w6"
            unfolding w6_def using w4 assms(1) by (intro grows_step_print)
          let ?v = "validate_all env mirna refblast chk cl outdir candidates [] w6"
          have v: "grows P w (world_of ?v)"
            using w6 grows_validate_all [of P w6] assms by (metis grows_trans)
          have "find_accepted env outdir qlink refblast max_hits chk cl mirna w =
                  (case ?v of Raise e w7 \<Rightarrow> Raise e w7
                   | Ok reblast_hits w7 \<Rightarrow> Ok (Some (cm_results, reblast_hits)) w7)"
            using s_ok False c_ok x_ok by (simp add: find_accepted_def Let_def w6_def)
          then show ?thesis using v by (cases ?v) (simp_all add: world_of_def)
        qed
      qed
    qed
  qed
qed


lemma write_records_trace: "trace (world_of (write_records qname cm outpath out_dict w)) = trace w"
  by (cases out_dict) (auto simp: world_of_def list_insert_def split: option.splits)

lemma select_verified_events:
  "\<exists>evs. trace (world_of (select_verified env mirna outdir hits w)) = trace w @ evs
         \<and> (list_ex is_verify_call evs \<longleftrightarrow> length hits \<noteq> 1)"
  by (auto simp: select_verified_def call_ext_def py_print_def emit_def world_of_def Let_def
           split: ext.splits)

lemma write_orthologs_events:
  "\<exists>evs. trace (world_of (write_orthologs env mirna qname outdir cm hits w)) = trace w @ evs
         \<and> (list_ex is_verify_call evs \<longleftrightarrow> 2 \<le> length hits)"
proof (cases "hits = []")
  case True
  then show ?thesis
    by (simp add: write_orthologs_def py_print_def emit_def world_of_def)
next
  case False
  then have len: "length hits \<noteq> 1 \<longleftrightarrow> 2 \<le> length hits"
    by (cases hits) (auto simp: Suc_le_eq)
  let ?s = "select_verified env mirna outdir hits w"
  from select_verified_events [of env mirna outdir hits w] len obtain evs where
    evs: "trace (world_of ?s) = trace w @ evs" "list_ex is_verify_call evs \<longleftrightarrow> 2 \<le> length hits"
    by auto
  show ?thesis
  proof (cases ?s)
    case (Raise e w1)
    with evs False show ?thesis by (simp add: write_orthologs_def world_of_def)
  next
    case (Ok out_dict w1)
    define w3 where "w3 = (py_print (''# Writing output of accepted candidates.'' @ nl) w1)
      \<lparr>disk := write_lines (outdir @ ''/'' @ name mirna @ ''_orthologs.fa'') []
                 (disk (py_print (''# Writing output of accepted candidates.'' @ nl) w1))\<rparr>"
    let ?r = "write_records qname cm (outdir @ ''/'' @ name mirna @ ''_orthologs.fa'') out_dict w3"
    have t3: "trace w3 = trace w @ evs @ [Print (''# Writing output of accepted candidates.'' @ nl)]"
      using evs(1) Ok by (simp add: w3_def py_print_def emit_def world_of_def)
    have tr: "trace (world_of ?r) = trace w3" by (rule write_records_trace)
    have unfold: "write_orthologs env mirna qname outdir cm hits w =
        (case ?r of Raise e w4 \<Rightarrow> Raise e w4
         | Ok u w4 \<Rightarrow> Ok () (py_print (''# Finished writing output.'' @ nl) w4))"
      using False Ok by (simp add: write_orthologs_def Let_def w3_def)
    show ?thesis
    proof (cases ?r)
      case (Raise e w4)
      with tr t3 evs(2) unfold show ?thesis by (simp add: world_of_def)
    next
      case (Ok u w4)
      with tr t3 evs(2) unfold show ?thesis
        by (simp add: world_of_def py_print_def emit_def)
    qed
  qed
qed

lemma list_ex_quiet: "list_all (\<lambda>e. \<not> is_verify_call e) evs \<Longrightarrow> \<not> list_ex is_verify_call evs"
  by (induction evs) auto

text \<open>
  What \<open>select_verified\<close> hands to the output: with one accepted candidate the accepted
  set itself, and the resolver is not asked; otherwise the answer of
  \<open>ReBlastParser.verify_coorthologs\<close> on the accepted set, whatever it is.
\<close>

lemma select_verified_single:
  "length hits = 1 \<Longrightarrow>
   select_verified env mirna outdir hits w =
     Ok hits (py_print (''# ncOrtho found 1 verified ortholog.'' @ nl) w)"
  by (simp add: select_verified_def)

lemma select_verified_resolver:
  assumes "length hits \<noteq> 1"
    and "verify_coorthologs env mirna hits outdir (disk w) = Returns out_dict d"
  shows "\<exists>w3. select_verified env mirna outdir hits w = Ok out_dict w3 \<and> disk w3 = d
              \<and> Call_verify_coorthologs (name mirna) \<in> set (trace w3)"
  using assms
  by (simp add: select_verified_def call_ext_def py_print_def emit_def Let_def)

lemma resolver_example:
  "select_verified (example_env (\<lambda>p. True) (\<lambda>p. True) (\<lambda>p. False)) example_mirna ''out''
     [(''c1'', ''ACGT''), (''c2'', ''ACGT'')] empty_world
   = Ok [(''c1'', ''ACGT'')]
       \<lparr>disk = \<lparr>files = [], dirs = []\<rparr>,
        trace = [Print (''# ncOrtho found 2 potential co-orthologs.'' @ nl),
                 Print ''# Evaluating distance between candidates to verify co-orthologs'',
                 Call_verify_coorthologs ''mir-1'',
                 Print ''ncOrtho found 1 verified ortholog'']\<rparr>"
  by (simp add: select_verified_def str_nat.simps world_defs example_defs)

text \<open>A record is appended to what the output file holds.\<close>

lemma append_lines_new:
  "map_of (files f) p = None \<Longrightarrow> map_of (files (append_lines p ls f)) p = Some ls"
  by (simp add: append_lines_def update_conv')

lemma append_lines_old:
  "map_of (files f) p = Some old \<Longrightarrow>
   map_of (files (append_lines p ls f)) p = Some (old @ ls)"
  by (simp add: append_lines_def update_conv')

text \<open>
  In the trace of the loop body for a miRNA a call of the resolver occurs exactly if the
  validation of the candidates ended with at least two accepted candidates.
\<close>

lemma resolver_called_iff:
  "list_ex is_verify_call
      (new_events w
         (process_mirna env outp qname qlink refblast heuristic max_hits chk cl mirna w))
    \<longleftrightarrow> 2 \<le> length (accepted_hits
                       (find_accepted env (outdir_of heuristic outp (name mirna)) qlink refblast
                          max_hits chk cl mirna w))"
proof -
  let ?outdir = "outdir_of heuristic outp (name mirna)"
  let ?f = "find_accepted env ?outdir qlink refblast max_hits chk cl mirna w"
  let ?p = "process_mirna env outp qname qlink refblast heuristic max_hits chk cl mirna w"
  have "grows (\<lambda>e. \<not> is_verify_call e) w (world_of ?f)"
    by (intro grows_find_accepted) simp_all
  then obtain evs1 where evs1: "trace (world_of ?f) = trace w @ evs1"
      "\<not> list_ex is_verify_call evs1"
    unfolding grows_iff using list_ex_quiet by blast
  show ?thesis
  proof (cases ?f)
    case (Raise e w7)
    with evs1 show ?thesis
      by (simp add: process_mirna_def Let_def new_events_def world_of_def accepted_hits_def)
  next
    case (Ok found w7)
    show ?thesis
    proof (cases found)
      case None
      with Ok evs1 show ?thesis
        by (simp add: process_mirna_def Let_def new_events_def world_of_def accepted_hits_def)
    next
      case (Some pair)
      let ?o = "write_orthologs env mirna qname ?outdir (fst pair) (snd pair) w7"
      from write_orthologs_events [of env mirna qname ?outdir "fst pair" "snd pair" w7]
      obtain evs2 where evs2: "trace (world_of ?o) = trace w7 @ evs2"
          "list_ex is_verify_call evs2 \<longleftrightarrow> 2 \<le> length (snd pair)"
        by blast
      have t7: "trace w7 = trace w @ evs1" using evs1(1) Ok by (simp add: world_of_def)
      have acc: "accepted_hits ?f = snd pair" using Ok Some by (simp add: accepted_hits_def)
      have unfold: "?p = (case ?o of Raise e w8 \<Rightarrow> Raise e w8
                          | Ok u w8 \<Rightarrow> Ok () (py_print (''# Finished ortholog search for ''
                                                          @ name mirna @ ''.'') w8))"
        using Ok Some by (simp add: process_mirna_def Let_def)
      show ?thesis
      proof (cases ?o)
        case (Raise e w8)
        with unfold evs2 t7 evs1(2) acc show ?thesis
          by (simp add: new_events_def world_of_def)
      next
        case (Ok u w8)
        with unfold evs2 t7 evs1(2) acc show ?thesis
          by (simp add: new_events_def world_of_def py_print_def emit_def)
      qed
    qed
  qed
qed

text \<open>
  C2.  The claim says that with exactly one accepted candidate the verified set written to
  the output is the accepted set, the resolver not being called.  In the scenario of the
  specification with the best-hit evaluation succeeding for \<open>c1\<close> only, the accepted set is
  \<open>c1\<close> with its sequence, the resolver is not called, and the output file of the miRNA is
  opened; then \<open>cmres.insert(qname)\<close> raises \<open>TypeError\<close> before the record of \<open>c1\<close> is
  written.  The file stays empty: what is written is not the accepted set.
\<close>

theorem single_accepted_not_written:
  "process_mirna (example_env (\<lambda>p. True) (\<lambda>p. p = ''out/blast_c1.out'') (\<lambda>p. False)) ''out''
     ''query'' ''out/data/query.fa'' ''ref'' (True, 1 / 2, 1 / 2) (PInt 50) False True
     example_mirna empty_world
   = Raise TypeError
       \<lparr>disk = \<lparr>files = [(''out/mir-1_orthologs.fa'', [])], dirs = [''out'']\<rparr>,
        trace = [Call_cmsearcher ''mir-1'', Call_extract_sequences ''out/data/query.fa'',
                 Print (nl @ ''# Covariance model search successful, found 3 ortholog candidates.''
                          @ nl),
                 Print (''# Evaluating candidates.'' @ nl),
                 Print ''# Starting reverse blast for c1'', Run_blastn ''out/blast_c1.out'',
                 Print ''# finished blast'', Call_evaluate_besthit ''out/blast_c1.out'',
                 Print ''Found best hit'',
                 Os_remove ''out/c1.fa'', Os_remove ''out/blast_c1.out'',
                 Print ''# Starting reverse blast for c2'', Run_blastn ''out/blast_c2.out'',
                 Print ''# finished blast'', Call_evaluate_besthit ''out/blast_c2.out'',
                 Print ''Best hit does not overlap with miRNA location'',
                 Os_remove ''out/c2.fa'', Os_remove ''out/blast_c2.out'',
                 Print ''# Starting reverse blast for c3'', Run_blastn ''out/blast_c3.out'',
                 Print ''# finished blast'', Call_evaluate_besthit ''out/blast_c3.out'',
                 Print ''Best hit does not overlap with miRNA location'',
                 Os_remove ''out/c3.fa'', Os_remove ''out/blast_c3.out'',
                 Print (''# ncOrtho found 1 verified ortholog.'' @ nl),
                 Print (''# Writing output of accepted candidates.'' @ nl)]\<rparr>
   \<and> accepted_hits
       (find_accepted (example_env (\<lambda>p. True) (\<lambda>p. p = ''out/blast_c1.out'') (\<lambda>p. False))
          ''out'' ''out/data/query.fa'' ''ref'' (PInt 50) False True example_mirna empty_world)
     = [(''c1'', ''ACGT'')]"
  by (simp add: accepted_hits_def pipeline_defs candidate_defs world_defs example_defs)

section \<open>Calibration of the reference score\<close>







section \<open>Cleanup of the temporary files\<close>

lemma isfile_shell_rm: "isfile (shell_rm p f) q \<longleftrightarrow> q \<noteq> p \<and> isfile f q"
  by (auto simp: isfile_def shell_rm_def delete_keys)

lemma temp_files_differ: "temp_fasta_of outdir c \<noteq> blast_output_of outdir c"
proof
  assume "temp_fasta_of outdir c = blast_output_of outdir c"
  then have "last (temp_fasta_of outdir c) = last (blast_output_of outdir c)" by simp
  then show False by (simp add: temp_fasta_of_def blast_output_of_def)
qed

lemma list_ex_removal: "list_all (\<lambda>e. \<not> is_removal e) evs \<Longrightarrow> \<not> list_ex is_removal evs"
  by (induction evs) auto

text \<open>
  C7 as the code has it.  With cleanup enabled, when the decision on a candidate
  completes, accepted or rejected, the removal of the temporary FASTA file is attempted
  and, after it succeeded, the removal of the BLAST output; a removal of a file that is
  not there raises \<open>FileNotFoundError\<close> and ends the validation with it.  When the decision
  raises, the validation raises the same exception and attempts no removal.
\<close>

theorem cleanup_after_decision:
  assumes "cl"
  shows
    "(decide_candidate env mirna chk outdir (blast_output_of outdir c) c sq hits
        (reverse_blast env rb outdir c sq w) = Ok hits1 w5 \<longrightarrow>
      validate_candidate env mirna rb chk cl outdir c sq hits w =
        (if isfile (disk w5) (temp_fasta_of outdir c)
         then (if isfile (disk w5) (blast_output_of outdir c)
               then Ok hits1
                      (w5\<lparr>disk := shell_rm (blast_output_of outdir c)
                                    (shell_rm (temp_fasta_of outdir c) (disk w5)),
                          trace := trace w5 @ [Os_remove (temp_fasta_of outdir c),
                                               Os_remove (blast_output_of outdir c)]\<rparr>)
               else Raise FileNotFoundError
                      (w5\<lparr>disk := shell_rm (temp_fasta_of outdir c) (disk w5),
                          trace := trace w5 @ [Os_remove (temp_fasta_of outdir c),
                                               Os_remove (blast_output_of outdir c)]\<rparr>))
         else Raise FileNotFoundError
                (w5\<lparr>trace := trace w5 @ [Os_remove (temp_fasta_of outdir c)]\<rparr>)))
     \<and> (decide_candidate env mirna chk outdir (blast_output_of outdir c) c sq hits
          (reverse_blast env rb outdir c sq w) = Raise e w5 \<longrightarrow>
        validate_candidate env mirna rb chk cl outdir c sq hits w = Raise e w5
        \<and> \<not> list_ex is_removal
              (new_events w (validate_candidate env mirna rb chk cl outdir c sq hits w)))"
proof (intro conjI impI)
  assume d: "decide_candidate env mirna chk outdir (blast_output_of outdir c) c sq hits
        (reverse_blast env rb outdir c sq w) = Ok hits1 w5"
  show "validate_candidate env mirna rb chk cl outdir c sq hits w =
        (if isfile (disk w5) (temp_fasta_of outdir c)
         then (if isfile (disk w5) (blast_output_of outdir c)
               then Ok hits1
                      (w5\<lparr>disk := shell_rm (blast_output_of outdir c)
                                    (shell_rm (temp_fasta_of outdir c) (disk w5)),
                          trace := trace w5 @ [Os_remove (temp_fasta_of outdir c),
                                               Os_remove (blast_output_of outdir c)]\<rparr>)
               else Raise FileNotFoundError
                      (w5\<lparr>disk := shell_rm (temp_fasta_of outdir c) (disk w5),
                          trace := trace w5 @ [Os_remove (temp_fasta_of outdir c),
                                               Os_remove (blast_output_of outdir c)]\<rparr>))
         else Raise FileNotFoundError
                (w5\<lparr>trace := trace w5 @ [Os_remove (temp_fasta_of outdir c)]\<rparr>))"
    using d assms temp_files_differ [of outdir c]
    by (simp add: validate_candidate_def cleanup_candidate_def os_remove_def emit_def Let_def
          isfile_shell_rm)
next
  assume d: "decide_candidate env mirna chk outdir (blast_output_of outdir c) c sq hits
        (reverse_blast env rb outdir c sq w) = Raise e w5"
  then show "validate_candidate env mirna rb chk cl outdir c sq hits w = Raise e w5"
    by (simp add: validate_candidate_def)
  have a: "grows (\<lambda>e. \<not> is_removal e) w (reverse_blast env rb outdir c sq w)"
    by (intro grows_reverse_blast) simp_all
  have b: "grows (\<lambda>e. \<not> is_removal e) (reverse_blast env rb outdir c sq w)
             (world_of (decide_candidate env mirna chk outdir (blast_output_of outdir c) c sq hits
                (reverse_blast env rb outdir c sq w)))"
    by (intro grows_decide) simp_all
  from a b d have "grows (\<lambda>e. \<not> is_removal e) w w5"
    by (simp add: world_of_def) (metis grows_trans)
  then show "\<not> list_ex is_removal
              (new_events w (validate_candidate env mirna rb chk cl outdir c sq hits w))"
    using d by (simp add: validate_candidate_def new_events_def world_of_def grows_def list_ex_removal)
qed

theorem cleanup_after_decision_witness:
  "validate_candidate (example_env (\<lambda>p. True) (\<lambda>p. False) (\<lambda>p. False)) example_mirna ''ref''
     False True ''out'' ''c2'' ''ACGT'' [] empty_world
   = Ok []
       \<lparr>disk = \<lparr>files = [], dirs = []\<rparr>,
        trace = [Print ''# Starting reverse blast for c2'', Run_blastn ''out/blast_c2.out'',
                 Print ''# finished blast'', Call_evaluate_besthit ''out/blast_c2.out'',
                 Print ''Best hit does not overlap with miRNA location'',
                 Os_remove ''out/c2.fa'', Os_remove ''out/blast_c2.out'']\<rparr>
   \<and> validate_candidate (example_env (\<lambda>p. True) (\<lambda>p. True) (\<lambda>p. True)) example_mirna ''ref''
       False True ''out'' ''c1'' ''ACGT'' [] empty_world
     = Raise FileNotFoundError
         \<lparr>disk = \<lparr>files = [(''out/c1.fa'', [''>c1'', ''ACGT'']), (''out/blast_c1.out'', [])],
                  dirs = []\<rparr>,
          trace = [Print ''# Starting reverse blast for c1'', Run_blastn ''out/blast_c1.out'',
                   Print ''# finished blast'', Call_evaluate_besthit ''out/blast_c1.out'']\<rparr>
   \<and> \<not> list_ex is_removal
         (new_events empty_world
            (validate_candidate (example_env (\<lambda>p. True) (\<lambda>p. True) (\<lambda>p. True)) example_mirna
               ''ref'' False True ''out'' ''c1'' ''ACGT'' [] empty_world))"
proof -
  let ?e1 = "example_env (\<lambda>p. True) (\<lambda>p. False) (\<lambda>p. False)"
  let ?e2 = "example_env (\<lambda>p. True) (\<lambda>p. True) (\<lambda>p. True)"
  have d1: "decide_candidate ?e1 example_mirna False ''out'' (blast_output_of ''out'' ''c2'')
              ''c2'' ''ACGT'' [] (reverse_blast ?e1 ''ref'' ''out'' ''c2'' ''ACGT'' empty_world)
            = Ok []
                \<lparr>disk = \<lparr>files = [(''out/c2.fa'', [''>c2'', ''ACGT'']), (''out/blast_c2.out'', [])],
                         dirs = []\<rparr>,
                 trace = [Print ''# Starting reverse blast for c2'',
                          Run_blastn ''out/blast_c2.out'', Print ''# finished blast'',
                          Call_evaluate_besthit ''out/blast_c2.out'',
                          Print ''Best hit does not overlap with miRNA location'']\<rparr>"
    by (simp add: candidate_defs world_defs example_defs)
  have d2: "decide_candidate ?e2 example_mirna False ''out'' (blast_output_of ''out'' ''c1'')
              ''c1'' ''ACGT'' [] (reverse_blast ?e2 ''ref'' ''out'' ''c1'' ''ACGT'' empty_world)
            = Raise FileNotFoundError
                \<lparr>disk = \<lparr>files = [(''out/c1.fa'', [''>c1'', ''ACGT'']), (''out/blast_c1.out'', [])],
                         dirs = []\<rparr>,
                 trace = [Print ''# Starting reverse blast for c1'',
                          Run_blastn ''out/blast_c1.out'', Print ''# finished blast'',
                          Call_evaluate_besthit ''out/blast_c1.out'']\<rparr>"
    by (simp add: candidate_defs world_defs example_defs)
  note ok = cleanup_after_decision [where cl = True, OF TrueI, THEN conjunct1, rule_format, OF d1]
  note bad = cleanup_after_decision [where cl = True, OF TrueI, THEN conjunct2, rule_format, OF d2]
  from ok bad show ?thesis
    by (simp add: isfile_def temp_fasta_of_def blast_output_of_def shell_rm_def new_events_def
          world_of_def empty_world_def)
qed

text \<open>
  C7 as the claim states it fails twice, with cleanup enabled.  When the best-hit
  evaluation raises, the trace of the candidate ends with that call: no removal is
  attempted and both temporary files stay.  When \<open>blastn\<close> wrote no output, the candidate
  is accepted and the removal of the BLAST output raises \<open>FileNotFoundError\<close>, which ends
  the loop body of the miRNA.
\<close>

theorem cleanup_counterexample:
  "raised (validate_candidate (example_env (\<lambda>p. True) (\<lambda>p. True) (\<lambda>p. True)) example_mirna
             ''ref'' False True ''out'' ''c1'' ''ACGT'' [] empty_world) = Some FileNotFoundError
   \<and> trace (world_of (validate_candidate (example_env (\<lambda>p. True) (\<lambda>p. True) (\<lambda>p. True))
                        example_mirna ''ref'' False True ''out'' ''c1'' ''ACGT'' [] empty_world))
     = [Print ''# Starting reverse blast for c1'', Run_blastn ''out/blast_c1.out'',
        Print ''# finished blast'', Call_evaluate_besthit ''out/blast_c1.out'']
   \<and> find_accepted (example_env (\<lambda>p. False) (\<lambda>p. True) (\<lambda>p. False)) ''out''
       ''out/data/query.fa'' ''ref'' (PInt 50) False True example_mirna empty_world
     = Raise FileNotFoundError
         \<lparr>disk = \<lparr>files = [], dirs = [''out'']\<rparr>,
          trace = [Call_cmsearcher ''mir-1'', Call_extract_sequences ''out/data/query.fa'',
                   Print (nl @ ''# Covariance model search successful, found 3 ortholog candidates.''
                            @ nl),
                   Print (''# Evaluating candidates.'' @ nl),
                   Print ''# Starting reverse blast for c1'', Run_blastn ''out/blast_c1.out'',
                   Print ''# finished blast'', Call_evaluate_besthit ''out/blast_c1.out'',
                   Print ''Found best hit'', Os_remove ''out/c1.fa'',
                   Os_remove ''out/blast_c1.out'']\<rparr>"
  by (simp add: find_accepted_def cap_hits_def truthy_def len_gt_def str_nat.simps
        candidate_defs world_defs example_defs)

section \<open>Failures while validating a candidate\<close>






section \<open>The exit status of main\<close>

lemma new_events_print_header:
  "new_events w (Raise e (py_print msg (print_header w)) :: unit res) =
     drop (length (trace w)) (trace (print_header w)) @ [Print msg]"
  by (simp add: new_events_def world_of_def print_header_def py_print_def emit_def)

lemma no_search_in_header:
  "\<not> list_ex is_search_event (drop (length (trace w)) (trace (print_header w)))"
  by (simp add: print_header_def py_print_def emit_def)

lemma new_events_print_help:
  "new_events w (Raise e (emit Print_help (print_header w)) :: unit res) =
     drop (length (trace w)) (trace (print_header w)) @ [Print_help]"
  by (simp add: new_events_def world_of_def print_header_def py_print_def emit_def)

text \<open>
  A run of \<open>main\<close> that passes every check, read stage by stage: the input checks, the
  data folder with the link to the query, the two databases, the calibration and the loop
  over the miRNAs.  The same for the self-search and for the calibration of one row.
\<close>

lemma main_stages:
  fixes a :: args
  defines "qname \<equiv> (if args_queryname a \<noteq> [] then args_queryname a
                     else default_qname (args_query a))"
  defines "outp \<equiv> (if \<not> last_component (args_output a) = qname
                    then args_output a @ ''/'' @ qname else args_output a)"
  defines "qlink \<equiv> (outp @ ''/data'') @ ''/'' @ qname @ ''.fa''"
  defines "heur \<equiv> (args_heuristic a, args_heur_blast_evalue a, args_heur_blast_length a)"
  assumes "argc \<noteq> 1" and "args_cpu a \<le> cpus"
    and "check_input_files [args_ncrna a, args_reference a, args_query a] (print_header w)
           = Ok () w1"
    and "isdir (disk w1) (args_models a)"
    and "w3 = (let w2 = (if \<not> isdir (disk w1) (outp @ ''/data'')
                         then w1\<lparr>disk := makedirs (outp @ ''/data'') (disk w1)\<rparr> else w1)
               in w2\<lparr>disk := symlink (args_query a) qlink (disk w2)\<rparr>)"
    and "setup_refblast env (args_refblast a) (args_reference a) (outp @ ''/data'') w3
           = Ok refblast w4"
    and "setup_qblast env (args_queryblast a) heur (args_query a) qlink w4 = Ok qblast w5"
    and "mirna_maker env (args_ncrna a) (args_models a) outp
           (py_print (''### Starting ncOrtho run for '' @ args_query a) w5) = Ok mirna_dict w7"
    and "process_mirnas env outp qname qlink refblast heur (args_maxcmhits a)
           (args_checkCoorthologsRef a) (args_cleanup a) (map snd mirna_dict) w7 = Raise e w8"
  shows "main env argc cpus a w = Raise e w8"
proof -
  note stages = assms(7-13)
  show ?thesis
    unfolding main_def Let_def
    using assms(5,6) stages [unfolded Let_def]
    unfolding qname_def outp_def qlink_def heur_def
    by (simp del: check_input_files.simps)
qed

lemma self_search_stages:
  assumes "d1 = (if \<not> isdir (disk w) outp then makedirs outp (disk w) else disk w)"
    and "d3 = write_lines (outp @ ''/'' @ mirid @ ''.fa'') [''>'' @ mirid, seq] d1"
    and "\<not> isfile d3 (outp @ ''/ref_cmsearch_'' @ mirid @ ''_tmp.out'')"
    and "d4 = cmsearch_cmd env (outp @ ''/ref_cmsearch_'' @ mirid @ ''_tmp.out'')
                (cmpath @ ''/'' @ mirid @ ''.cm'') (outp @ ''/'' @ mirid @ ''.fa'')
                (outp @ ''/ref_cmsearch_'' @ mirid @ ''.log'') d3"
    and "read_lines d4 (outp @ ''/ref_cmsearch_'' @ mirid @ ''_tmp.out'') = Inr ls"
  shows "\<exists>w4. self_search env cmpath outp mirid seq w = Ok ls w4 \<and> disk w4 = d4"
  using assms
  by (cases "isdir (disk w) outp")
     (simp_all add: self_search_def Let_def py_print_def emit_def run_cmd_def)

lemma calibrate_row_stages:
  assumes "py_index row 0 = Inr mirid" and "py_index row 5 = Inr seq"
    and "isfile (disk w) (cmpath @ ''/'' @ mirid @ ''.cm'')"
    and "self_search env cmpath outp mirid seq w = Ok ls w4"
    and "top_score_of (py_float env) ls w4 = Ok top_score w5"
    and "Mirna_star (py_int env) row top_score = Inr m"
  shows "calibrate_row env cmpath outp row mmdict w
           = Ok (AList.update mirid m mmdict) (remove_temporaries outp mirid w5)"
  using assms by (simp add: calibrate_row_def Let_def)

text \<open>
  The example run: every input is there, the databases are built, \<open>mir-1\<close> is calibrated
  with the score 42, and the cleanup of the first candidate raises \<open>FileNotFoundError\<close>
  because \<open>blastn\<close> wrote no output.
\<close>

lemma example_run_raises:
  "\<exists>w'. main (example_env (\<lambda>p. False) (\<lambda>p. False) (\<lambda>p. False)) 12 8 example_args
          example_run_world = Raise FileNotFoundError w'"
proof -
  let ?env = "example_env (\<lambda>p. False) (\<lambda>p. False) (\<lambda>p. False)"
  let ?line = "''mir-1 chr1 100 180 + GGAUUC GAUU''"
  let ?f0 = "[(''mirnas.tsv'', [''#name chr start end strand pre mature'', ?line]),
              (''ref.fa'', []), (''query.fa'', []), (''cm/mir-1.cm'', [])]"
  let ?f3 = "[(''mirnas.tsv'', [''#name chr start end strand pre mature'', ?line]),
              (''ref.fa'', []), (''query.fa'', []), (''cm/mir-1.cm'', []),
              (''out/query/data/query.fa'', [])]"
  let ?f4 = "?f3 @ [(''out/query/data/ref.fa.nsq'', []), (''out/query/data/ref.fa.nin'', []),
                    (''out/query/data/ref.fa.nhr'', [])]"
  let ?f5 = "?f4 @ [(''out/query/data/query.fa.nsq'', []), (''out/query/data/query.fa.nin'', []),
                    (''out/query/data/query.fa.nhr'', [])]"
  let ?f6 = "?f5 @ [(''out/query/mir-1.fa'', [''>mir-1'', ''GGAUUC''])]"
  let ?dirs = "[''cm'', ''out/query/data'', ''out/query'']"
  let ?mir = "\<lparr>name = ''mir-1'', chromosome = ''1'', start = 100, end_pos = 180, strand = ''+'',
               pre = ''GGATTC'', mature = ''GATT'', bit = 42\<rparr>"
  define w1 where "w1 = print_header example_run_world"
  have d1: "disk w1 = \<lparr>files = ?f0, dirs = [''cm'']\<rparr>"
    by (simp add: w1_def print_header_def py_print_def emit_def example_run_world_def)
  have s1: "check_input_files [''mirnas.tsv'', ''ref.fa'', ''query.fa'']
              (print_header example_run_world) = Ok () w1"
    unfolding w1_def [symmetric] by (simp add: isfile_def d1)
  have s2: "isdir (disk w1) ''cm''"
    by (simp add: isdir_def d1)
  define w3 where "w3 = w1\<lparr>disk := \<lparr>files = ?f3, dirs = [''cm'', ''out/query/data'']\<rparr>\<rparr>"
  have d3: "disk w3 = \<lparr>files = ?f3, dirs = [''cm'', ''out/query/data'']\<rparr>"
    by (simp add: w3_def)
  have "\<exists>w4. setup_refblast ?env [] ''ref.fa'' ''out/query/data'' w3
               = Ok ''out/query/data/ref.fa'' w4
             \<and> disk w4 = \<lparr>files = ?f4, dirs = [''cm'', ''out/query/data'']\<rparr>"
    by (simp add: setup_refblast_def last_component_def check_blastdb_def glob_glob_def d3
          example_env_def world_defs)
  then obtain w4 where s4: "setup_refblast ?env [] ''ref.fa'' ''out/query/data'' w3
               = Ok ''out/query/data/ref.fa'' w4"
    and d4: "disk w4 = \<lparr>files = ?f4, dirs = [''cm'', ''out/query/data'']\<rparr>"
    by blast
  have "\<exists>w5. setup_qblast ?env [] (True, 1 / 2, 1 / 2) ''query.fa'' ''out/query/data/query.fa'' w4
               = Ok ''out/query/data/query.fa'' w5
             \<and> disk w5 = \<lparr>files = ?f5, dirs = [''cm'', ''out/query/data'']\<rparr>"
    by (simp add: setup_qblast_def tuple_truthy_def check_blastdb_def glob_glob_def d4
          example_env_def world_defs)
  then obtain w5 where s5: "setup_qblast ?env [] (True, 1 / 2, 1 / 2) ''query.fa''
               ''out/query/data/query.fa'' w4 = Ok ''out/query/data/query.fa'' w5"
    and d5: "disk w5 = \<lparr>files = ?f5, dirs = [''cm'', ''out/query/data'']\<rparr>"
    by blast
  define w6 where "w6 = py_print ''### Starting ncOrtho run for query.fa'' w5"
  have d6: "disk w6 = \<lparr>files = ?f5, dirs = [''cm'', ''out/query/data'']\<rparr>"
    by (simp add: w6_def py_print_def emit_def d5)
  have id: "py_index example_row 0 = Inr ''mir-1''"
    and sq: "py_index example_row 5 = Inr ''GGAUUC''"
    by (simp_all add: example_row_def py_index_def)
  have cm: "isfile (disk w6) (''cm'' @ ''/'' @ ''mir-1'' @ ''.cm'')"
    by (simp add: d6 isfile_def)
  have "\<exists>wa. self_search ?env ''cm'' ''out/query'' ''mir-1'' ''GGAUUC'' w6 = Ok example_table wa
             \<and> disk wa = \<lparr>files = ?f6 @ [(''out/query/ref_cmsearch_mir-1_tmp.out'',
                                            example_table)], dirs = ?dirs\<rparr>"
    by (rule self_search_stages [where ?d1.0 = "\<lparr>files = ?f5, dirs = ?dirs\<rparr>"
            and ?d3.0 = "\<lparr>files = ?f6, dirs = ?dirs\<rparr>"])
       (simp_all add: d6 isdir_def makedirs_def write_lines_def isfile_def read_lines_def
          example_env_def)
  then obtain wa where ss: "self_search ?env ''cm'' ''out/query'' ''mir-1'' ''GGAUUC'' w6
               = Ok example_table wa"
    and da: "disk wa = \<lparr>files = ?f6 @ [(''out/query/ref_cmsearch_mir-1_tmp.out'',
                                          example_table)], dirs = ?dirs\<rparr>"
    by blast
  have ts: "top_score_of (py_float ?env) example_table wa = Ok 42 wa"
    by (simp add: top_score_of_def table_hits_def example_table_def str_split_ws_def
          is_space_def py_index_def example_env_def dec_float_def dec_unsigned_def dec_nat_def
          digit_of_def)
  have ms: "Mirna_star (py_int ?env) example_row 42 = Inr ?mir"
    by (simp add: Mirna_star_def Mirna_init_def norm_chromosome_def str_split_def py_index_def
          replace_U_T_def example_row_def example_env_def dec_int_def dec_nat_def digit_of_def)
  define w7 where "w7 = remove_temporaries ''out/query'' ''mir-1'' wa"
  have cr: "calibrate_row ?env ''cm'' ''out/query'' example_row [] w6
              = Ok (AList.update ''mir-1'' ?mir []) w7"
    unfolding w7_def by (rule calibrate_row_stages [OF id sq cm ss ts ms])
  have d7: "disk w7 = \<lparr>files = ?f5, dirs = ?dirs\<rparr>"
    by (simp add: w7_def remove_temporaries_def shell_rm_def da)
  have row: "str_split_ws ?line = example_row"
    by (simp add: str_split_ws_def is_space_def example_row_def)
  have s7: "mirna_maker ?env ''mirnas.tsv'' ''cm'' ''out/query''
              (py_print ''### Starting ncOrtho run for query.fa'' w5) = Ok [(''mir-1'', ?mir)] w7"
    unfolding w6_def [symmetric]
    by (simp add: mirna_maker_def read_lines_def d6 row cr)
  have "\<exists>w8. process_mirnas ?env ''out/query'' ''query'' ''out/query/data/query.fa''
               ''out/query/data/ref.fa'' (True, 1 / 2, 1 / 2) (PInt 50) False True [?mir] w7
             = Raise FileNotFoundError w8"
    by (simp add: pipeline_defs candidate_defs d7 example_env_def example_loci_def world_defs)
  then obtain w8 where s8: "process_mirnas ?env ''out/query'' ''query''
               ''out/query/data/query.fa'' ''out/query/data/ref.fa'' (True, 1 / 2, 1 / 2)
               (PInt 50) False True [?mir] w7 = Raise FileNotFoundError w8"
    by blast
  have "main ?env 12 8 example_args example_run_world = Raise FileNotFoundError w8"
    by (rule main_stages [where ?w1.0 = w1 and ?w3.0 = w3 and ?w4.0 = w4 and ?w5.0 = w5
            and ?w7.0 = w7 and refblast = "''out/query/data/ref.fa''"
            and qblast = "''out/query/data/query.fa''" and mirna_dict = "[(''mir-1'', ?mir)]"])
       (simp_all add: example_args_def maxcmhits_option_def default_qname_def
          last_component_def s1 s2 s4 s5 s7 s8 w3_def [symmetric] d1 isdir_def isfile_def makedirs_def
          symlink_def write_lines_def
          del: check_input_files.simps process_mirnas.simps)
  then show ?thesis by blast
qed

text \<open>
  C8 as the code has it.  A start without arguments and a requested CPU count above the
  available one end the run with \<open>sys.exit(1)\<close>, exit status 1.  A missing miRNA file,
  reference or query genome or model folder ends it with \<open>sys.exit()\<close> after one error
  line.  In each of these cases the run has printed the banner and that one line or the
  help, and nothing has been searched: no miRNA was processed.  Any exception other than
  \<open>SystemExit\<close> that ends \<open>main\<close> gives the exit status 1 too.
\<close>

theorem exit_paths:
  "(argc = 1 \<longrightarrow>
      main env argc cpus a w = Raise (SystemExit (Some 1)) (emit Print_help (print_header w))
      \<and> exit_status (main env argc cpus a w) = 1)
   \<and> (argc \<noteq> 1 \<and> args_cpu a > cpus \<longrightarrow>
        main env argc cpus a w
          = Raise (SystemExit (Some 1)) (py_print cpu_error_line (print_header w))
        \<and> exit_status (main env argc cpus a w) = 1)
   \<and> (argc \<noteq> 1 \<and> args_cpu a \<le> cpus \<and>
      \<not> (isfile (disk w) (args_ncrna a) \<and> isfile (disk w) (args_reference a) \<and>
         isfile (disk w) (args_query a) \<and> isdir (disk w) (args_models a)) \<longrightarrow>
        (\<exists>msg. main env argc cpus a w
                 = Raise (SystemExit None) (py_print msg (print_header w))))
   \<and> ((argc = 1 \<or> args_cpu a > cpus \<or>
       \<not> (isfile (disk w) (args_ncrna a) \<and> isfile (disk w) (args_reference a) \<and>
          isfile (disk w) (args_query a) \<and> isdir (disk w) (args_models a))) \<longrightarrow>
        \<not> list_ex is_search_event (new_events w (main env argc cpus a w)))
   \<and> (main env argc cpus a w = Raise e w' \<and> (\<forall>code. e \<noteq> SystemExit code) \<longrightarrow>
        exit_status (main env argc cpus a w) = 1)"
proof -
  have noargs: "argc = 1 \<Longrightarrow>
      main env argc cpus a w = Raise (SystemExit (Some 1)) (emit Print_help (print_header w))"
    by (simp add: main_def Let_def)
  have cpu: "argc \<noteq> 1 \<Longrightarrow> args_cpu a > cpus \<Longrightarrow>
      main env argc cpus a w
        = Raise (SystemExit (Some 1)) (py_print cpu_error_line (print_header w))"
    by (simp add: main_def Let_def cpu_error_line_def)
  have missing: "\<exists>msg. main env argc cpus a w
                 = Raise (SystemExit None) (py_print msg (print_header w))"
    if "argc \<noteq> 1" "args_cpu a \<le> cpus"
       "\<not> (isfile (disk w) (args_ncrna a) \<and> isfile (disk w) (args_reference a) \<and>
          isfile (disk w) (args_query a) \<and> isdir (disk w) (args_models a))"
    using that by (auto simp: main_def Let_def print_header_def py_print_def emit_def)
  have quiet: "\<not> list_ex is_search_event (new_events w (main env argc cpus a w))"
    if "argc = 1 \<or> args_cpu a > cpus \<or>
       \<not> (isfile (disk w) (args_ncrna a) \<and> isfile (disk w) (args_reference a) \<and>
          isfile (disk w) (args_query a) \<and> isdir (disk w) (args_models a))"
  proof (cases "argc = 1")
    case True
    then show ?thesis
      using noargs no_search_in_header [of w]
      by (simp add: new_events_print_help)
  next
    case False
    show ?thesis
    proof (cases "args_cpu a > cpus")
      case True
      with False cpu no_search_in_header [of w] show ?thesis
        by (simp add: new_events_print_header)
    next
      case high: False
      with False that missing obtain msg where
        "main env argc cpus a w = Raise (SystemExit None) (py_print msg (print_header w))"
        by auto
      with no_search_in_header [of w] show ?thesis
        by (simp add: new_events_print_header)
    qed
  qed
  have uncaught: "exit_status (main env argc cpus a w) = 1"
    if "main env argc cpus a w = Raise e w'" "\<forall>code. e \<noteq> SystemExit code"
    using that by (cases e) (simp_all add: exit_status_def)
  show ?thesis
    using noargs cpu missing quiet uncaught
    by (auto simp: exit_status_def)
qed

lemmas run_defs =
  main_def print_header_def default_qname_def last_component_def symlink_def
  setup_refblast_def setup_qblast_def check_blastdb_def glob_glob_def mirna_maker_def
  exit_status_def maxcmhits_option_def example_args_def example_run_world_def

theorem exit_paths_witness:
  "exit_status (main (example_env (\<lambda>p. False) (\<lambda>p. False) (\<lambda>p. False)) 1 8 example_args
                  example_run_world) = 1
   \<and> exit_status (main (example_env (\<lambda>p. False) (\<lambda>p. False) (\<lambda>p. False)) 12 2 example_args
                    example_run_world) = 1
   \<and> (\<exists>msg. main (example_env (\<lambda>p. False) (\<lambda>p. False) (\<lambda>p. False)) 12 8
                 (example_args\<lparr>args_query := ''missing.fa''\<rparr>) example_run_world
               = Raise (SystemExit None) (py_print msg (print_header example_run_world)))
   \<and> \<not> list_ex is_search_event
         (new_events example_run_world
            (main (example_env (\<lambda>p. False) (\<lambda>p. False) (\<lambda>p. False)) 12 8
               (example_args\<lparr>args_query := ''missing.fa''\<rparr>) example_run_world))
   \<and> exit_status (main (example_env (\<lambda>p. False) (\<lambda>p. False) (\<lambda>p. False)) 12 8 example_args
                    example_run_world) = 1"
proof -
  let ?env = "example_env (\<lambda>p. False) (\<lambda>p. False) (\<lambda>p. False)"
  let ?miss = "example_args\<lparr>args_query := ''missing.fa''\<rparr>"
  have one: "(1::nat) = 1" by simp
  note p1 = exit_paths [where argc = 1 and env = ?env and cpus = 8 and a = example_args
      and w = example_run_world, THEN conjunct1, rule_format, OF one, THEN conjunct2]
  have two: "(12::nat) \<noteq> 1 \<and> args_cpu example_args > 2"
    by (simp add: example_args_def)
  note p2 = exit_paths [where argc = 12 and env = ?env and cpus = 2 and a = example_args
      and w = example_run_world, THEN conjunct2, THEN conjunct1, rule_format, OF two,
      THEN conjunct2]
  have three: "(12::nat) \<noteq> 1 \<and> args_cpu ?miss \<le> 8 \<and>
      \<not> (isfile (disk example_run_world) (args_ncrna ?miss) \<and>
         isfile (disk example_run_world) (args_reference ?miss) \<and>
         isfile (disk example_run_world) (args_query ?miss) \<and>
         isdir (disk example_run_world) (args_models ?miss))"
    by (simp add: example_args_def example_run_world_def isfile_def)
  note p3 = exit_paths [where argc = 12 and env = ?env and cpus = 8 and a = ?miss
      and w = example_run_world, THEN conjunct2, THEN conjunct2, THEN conjunct1, rule_format,
      OF three]
  have four: "(12::nat) = 1 \<or> args_cpu ?miss > 8 \<or>
      \<not> (isfile (disk example_run_world) (args_ncrna ?miss) \<and>
         isfile (disk example_run_world) (args_reference ?miss) \<and>
         isfile (disk example_run_world) (args_query ?miss) \<and>
         isdir (disk example_run_world) (args_models ?miss))"
    by (simp add: example_args_def example_run_world_def isfile_def)
  note p4 = exit_paths [where argc = 12 and env = ?env and cpus = 8 and a = ?miss
      and w = example_run_world, THEN conjunct2, THEN conjunct2, THEN conjunct2, THEN conjunct1,
      rule_format, OF four]
  obtain w' where run: "main ?env 12 8 example_args example_run_world
      = Raise FileNotFoundError w'"
    using example_run_raises by blast
  have five: "main ?env 12 8 example_args example_run_world = Raise FileNotFoundError w' \<and>
      (\<forall>code. FileNotFoundError \<noteq> SystemExit code)"
    using run by simp
  note p5 = exit_paths [where argc = 12 and env = ?env and cpus = 8 and a = example_args
      and w = example_run_world and e = FileNotFoundError and w' = w', THEN conjunct2,
      THEN conjunct2, THEN conjunct2, THEN conjunct2, rule_format, OF five]
  from p1 p2 p3 p4 p5 show ?thesis by blast
qed

text \<open>
  C8 as the claim states it fails in both directions.  With every input file and the model
  folder present and four of eight cores requested, a \<open>blastn\<close> that writes no output makes
  the cleanup of the first candidate raise \<open>FileNotFoundError\<close>, and the run ends with exit
  status 1: a failure that is no configuration error.  And with a query genome that is
  not there, a configuration error, the run ends with exit status 0.
\<close>

theorem exit_status_counterexample:
  "raised (main (example_env (\<lambda>p. False) (\<lambda>p. False) (\<lambda>p. False)) 12 8 example_args
             example_run_world) = Some FileNotFoundError
   \<and> exit_status (main (example_env (\<lambda>p. False) (\<lambda>p. False) (\<lambda>p. False)) 12 8 example_args
                    example_run_world) = 1
   \<and> isfile (disk example_run_world) (args_ncrna example_args)
   \<and> isfile (disk example_run_world) (args_reference example_args)
   \<and> isfile (disk example_run_world) (args_query example_args)
   \<and> isdir (disk example_run_world) (args_models example_args)
   \<and> args_cpu example_args \<le> 8
   \<and> \<not> isfile (disk example_run_world) ''missing.fa''
   \<and> exit_status (main (example_env (\<lambda>p. False) (\<lambda>p. False) (\<lambda>p. False)) 12 8
                    (example_args\<lparr>args_query := ''missing.fa''\<rparr>) example_run_world) = 0"
proof -
  let ?env = "example_env (\<lambda>p. False) (\<lambda>p. False) (\<lambda>p. False)"
  obtain w' where run: "main ?env 12 8 example_args example_run_world
      = Raise FileNotFoundError w'"
    using example_run_raises by blast
  have missing: "exit_status (main ?env 12 8 (example_args\<lparr>args_query := ''missing.fa''\<rparr>)
                   example_run_world) = 0"
    by (simp add: run_defs world_defs example_defs)
  have config: "isfile (disk example_run_world) (args_ncrna example_args)
      \<and> isfile (disk example_run_world) (args_reference example_args)
      \<and> isfile (disk example_run_world) (args_query example_args)
      \<and> isdir (disk example_run_world) (args_models example_args)
      \<and> args_cpu example_args \<le> 8
      \<and> \<not> isfile (disk example_run_world) ''missing.fa''"
    by (simp add: example_args_def example_run_world_def isfile_def isdir_def)
  from run missing config show ?thesis
    by (simp add: raised_def exit_status_def)
qed

end
